theory Spec2Isabelle
  imports Main "HOL-Library.Sublist" "HOL-Library.Word"
begin

section \<open>The Go library functions that plugin.go calls\<close>

text \<open>
  Go strings are byte sequences, and so is \<^typ>\<open>string\<close>. The functions of this section
  are not part of plugin.go: they are the functions of the packages \<open>strings\<close>,
  \<open>strconv\<close>, \<open>path/filepath\<close> and \<open>fmt\<close> that it calls, written after their
  documented behaviour.
\<close>

subsection \<open>strings\<close>

text \<open>\<open>strings.Contains(s, substr)\<close>: \<open>substr\<close> occurs in \<open>s\<close> as a contiguous run.\<close>

fun Contains :: "string \<Rightarrow> string \<Rightarrow> bool" where
  "Contains [] substr = (substr = [])"
| "Contains (c # s) substr = (prefix substr (c # s) \<or> Contains s substr)"

text \<open>
  \<open>strings.Split(s, sep)\<close> for a separator of one byte: the pieces of \<open>s\<close> between the
  occurrences of \<open>sep\<close>; there is always at least one piece.
\<close>

fun Split :: "string \<Rightarrow> char \<Rightarrow> string list" where
  "Split [] sep = [[]]"
| "Split (c # s) sep =
     (if c = sep then [] # Split s sep
      else (case Split s sep of [] \<Rightarrow> [[c]] | a # as \<Rightarrow> (c # a) # as))"

subsection \<open>strconv\<close>

definition isDigit :: "char \<Rightarrow> bool" where
  "isDigit c = (48 \<le> (of_char c :: nat) \<and> (of_char c :: nat) \<le> 57)"

definition digitVal :: "char \<Rightarrow> nat" where
  "digitVal c = of_char c - 48"

text \<open>The digit loop of \<open>strconv.ParseUint\<close> in base 10; any other byte is a syntax error.\<close>

fun parseDigits :: "nat \<Rightarrow> string \<Rightarrow> nat option" where
  "parseDigits n [] = Some n"
| "parseDigits n (c # cs) =
     (if isDigit c then parseDigits (n * 10 + digitVal c) cs else None)"

text \<open>
  \<open>strconv.Atoi(s)\<close> on a platform whose \<open>int\<close> has \<open>bits\<close> bits: an optional sign, then
  one or more decimal digits, the value within the range of \<open>int\<close>. \<open>None\<close> stands for a
  non-nil error (syntax or range).
\<close>

definition Atoi :: "nat \<Rightarrow> string \<Rightarrow> int option" where
  "Atoi bits s =
     (case s of
        [] \<Rightarrow> None
      | c # r \<Rightarrow>
          (let neg = (c = CHR ''-'');
               ds = (if c = CHR ''-'' \<or> c = CHR ''+'' then r else s)
           in if ds = [] then None
              else (case parseDigits 0 ds of
                      None \<Rightarrow> None
                    | Some n \<Rightarrow>
                        if neg then (if 2 ^ (bits - 1) < n then None else Some (- int n))
                        else (if 2 ^ (bits - 1) \<le> n then None else Some (int n)))))"

text \<open>The decimal digits of a natural number, most significant first.\<close>

fun digits :: "nat \<Rightarrow> string" where
  "digits n =
     (if n < 10 then [char_of (48 + n)]
      else digits (n div 10) @ [char_of (48 + n mod 10)])"

declare digits.simps [simp del]

text \<open>\<open>strconv.Itoa(i)\<close>, which is also what the verb \<open>%d\<close> prints.\<close>

definition Itoa :: "int \<Rightarrow> string" where
  "Itoa i = (if i < 0 then CHR ''-'' # digits (nat (- i)) else digits (nat i))"

subsection \<open>path/filepath\<close>

text \<open>
  \<open>filepath.ListSeparator\<close> is fixed by the operating system the program is built for:
  \<open>;\<close> on Windows, the zero byte on Plan 9, \<open>:\<close> elsewhere.
\<close>

definition ListSeparator :: "string \<Rightarrow> char" where
  "ListSeparator goos =
     (if goos = ''windows'' then CHR '';''
      else if goos = ''plan9'' then CHR 0x00
      else CHR '':'')"

text \<open>
  The loop of \<open>filepath.SplitList\<close> on Windows: a separator inside double quotes does
  not split. \<open>quo\<close> is the quote state, \<open>cur\<close> the piece read so far.
\<close>

fun splitQuoted :: "bool \<Rightarrow> string \<Rightarrow> string \<Rightarrow> string list" where
  "splitQuoted quo cur [] = [cur]"
| "splitQuoted quo cur (c # cs) =
     (if c = CHR 0x22 then splitQuoted (\<not> quo) (cur @ [c]) cs
      else if c = CHR '';'' \<and> \<not> quo then cur # splitQuoted quo [] cs
      else splitQuoted quo (cur @ [c]) cs)"

text \<open>
  \<open>filepath.SplitList(path)\<close>: the empty string gives no piece at all; on Windows the
  quotes are removed from the pieces; elsewhere it is \<open>strings.Split\<close>.
\<close>

definition SplitList :: "string \<Rightarrow> string \<Rightarrow> string list" where
  "SplitList goos path =
     (if path = [] then []
      else if goos = ''windows''
        then map (filter (\<lambda>c. c \<noteq> CHR 0x22)) (splitQuoted False [] path)
      else Split path (ListSeparator goos))"

subsection \<open>fmt\<close>

text \<open>The verb \<open>%v\<close> on a \<open>bool\<close>.\<close>

definition fmtBool :: "bool \<Rightarrow> string" where
  "fmtBool b = (if b then ''true'' else ''false'')"

section \<open>Data of plugin.go and of its collaborators\<close>

text \<open>The catalog entry, \<open>type Plugin struct\<close>.\<close>

record Plugin =
  Name :: string
  FullName :: string
  Type :: string
  Owner :: string
  Description :: string
  URL :: string
  Forks :: int
  Stars :: int
  Watchers :: int
  Issues :: int

text \<open>
  What the management client answers: the loaded plugin (\<open>r.LoadedPlugin\<close>, whose method
  \<open>LoadedTime()\<close> reads \<open>LoadedTimestamp\<close>) and the unloaded plugin
  (\<open>r.Name\<close>, \<open>r.Version\<close>, \<open>r.Type\<close>, and \<open>r.UnloadedPlugin\<close>).
\<close>

record LoadedPlugin =
  lName :: string
  lVersion :: int
  lType :: string
  lSigned :: bool
  lLoadedTimestamp :: int

record UnloadedPlugin =
  uName :: string
  uVersion :: int
  uType :: string

text \<open>
  A decoded JSON value, Go's \<open>interface{}\<close> after \<open>json.Unmarshal\<close>: \<open>nil\<close>, \<open>bool\<close>,
  \<open>float64\<close> (its 64 bits), \<open>string\<close>, \<open>[]interface{}\<close> and
  \<open>map[string]interface{}\<close> (as an association list, looked up with \<^const>\<open>map_of\<close>).
\<close>

datatype json =
    JNull
  | JBool bool
  | JNumber "64 word"
  | JString string
  | JArray "json list"
  | JObject "(string \<times> json) list"

text \<open>
  \<open>*cli.Context\<close>: the positional arguments and the flags that the commands read with
  \<open>ctx.String\<close> and \<open>ctx.Int\<close>.
\<close>

record Context =
  Args :: "string list"
  plugin_asc :: string
  plugin_type :: string
  plugin_name :: string
  plugin_version :: int

text \<open>
  Everything outside plugin.go that a command depends on: the platform
  (\<open>runtime.GOOS\<close>, \<open>runtime.GOARCH\<close>, \<open>strconv.IntSize\<close>), the management client
  \<open>pClient\<close> (\<open>Inl\<close> carries \<open>r.Err.Error()\<close>), the time format, the network, the JSON
  codec and the file system. An \<open>Inl\<close> or a \<open>Some\<close> of a \<open>string\<close> is a non-nil error
  with that message.
\<close>

record Env =
  GOOS :: string
  GOARCH :: string
  IntSize :: nat
  UnloadPlugin :: "string \<Rightarrow> string \<Rightarrow> int \<Rightarrow> string + UnloadedPlugin"
  SwapPlugin ::
    "string list \<Rightarrow> string \<Rightarrow> string \<Rightarrow> int \<Rightarrow> string + LoadedPlugin \<times> UnloadedPlugin"
  formatTime :: "int \<Rightarrow> string"
  NewRequest :: "string \<Rightarrow> string option"
  httpGet :: "string \<Rightarrow> string + (string + string)"
  UnmarshalPlugins :: "string \<Rightarrow> string + Plugin list"
  UnmarshalObject :: "string \<Rightarrow> (string \<times> json) list option"
  MarshalIndent :: "Plugin list \<Rightarrow> string"
  formatValue :: "json \<Rightarrow> string"
  osCreate :: "string \<Rightarrow> string option"

text \<open>
  What a command does to the world, in order: text written to standard output
  (\<open>StdoutFormat\<close> is \<open>fmt.Printf\<close> of a format with no operand), calls of the
  management client, requests to the network, files created and written.
\<close>

datatype event =
    Stdout string
  | StdoutFormat string
  | RemoteUnloadPlugin string string int
  | RemoteSwapPlugin "string list" string string int
  | HttpGet string
  | FileCreate string
  | FileWrite string string

text \<open>
  The errors a command returns: \<open>newUsageError(msg, ctx)\<close>, \<open>fmt.Errorf\<close> with its
  formatted message, and an error of a collaborator passed on as it is.
\<close>

datatype error =
    UsageError string
  | Errorf string
  | External string

text \<open>
  A run-time panic: a type assertion on a value of another dynamic type (the value,
  \<open>None\<close> for the \<open>nil\<close> that a missing key gives), or an index out of range.
\<close>

datatype panic =
    TypeAssertion "json option"
  | IndexOutOfRange

text \<open>How a command ends: it returns \<open>nil\<close>, it returns an error, or it panics.\<close>

datatype result =
    ReturnsNil
  | Returns error
  | Panics panic

type_synonym outcome = "event list \<times> result"

text \<open>The text that the \<open>Stdout\<close> events of a run write, in order.\<close>

fun stdout :: "event list \<Rightarrow> string" where
  "stdout [] = []"
| "stdout (Stdout s # es) = s @ stdout es"
| "stdout (e # es) = stdout es"

text \<open>The calls of the management client in a run.\<close>

fun isRemoteCall :: "event \<Rightarrow> bool" where
  "isRemoteCall (RemoteUnloadPlugin t n v) = True"
| "isRemoteCall (RemoteSwapPlugin ps t n v) = True"
| "isRemoteCall e = False"

definition remoteCalls :: "event list \<Rightarrow> event list" where
  "remoteCalls es = filter isRemoteCall es"

text \<open>\<open>ctx.Args().Get(i)\<close>: the empty string when there is no such argument.\<close>

definition Get :: "string list \<Rightarrow> nat \<Rightarrow> string" where
  "Get args i = (if i < length args then args ! i else [])"

section \<open>unload\<close>

text \<open>The four lines that \<open>unloadPlugin\<close> prints on success (source lines 444 to 447).\<close>

definition unloadedText :: "UnloadedPlugin \<Rightarrow> event list" where
  "unloadedText r =
     [Stdout ''Plugin unloaded\<newline>'',
      Stdout (''Name: '' @ uName r @ ''\<newline>''),
      Stdout (''Version: '' @ Itoa (uVersion r) @ ''\<newline>''),
      Stdout (''Type: '' @ uType r @ ''\<newline>'')]"

text \<open>\<open>func unloadPlugin(ctx *cli.Context) error\<close>.\<close>

definition unloadPlugin :: "Env \<Rightarrow> Context \<Rightarrow> outcome" where
  "unloadPlugin env ctx =
     (let pType = Get (Args ctx) 0;
          pName = Get (Args ctx) 1;
          parsed = Atoi (IntSize env) (Get (Args ctx) 2)
      in if pType = [] then ([], Returns (UsageError ''Must provide plugin type''))
         else if pName = [] then ([], Returns (UsageError ''Must provide plugin name''))
         else (case parsed of
                 None \<Rightarrow>
                   ([], Returns (UsageError ''Can't convert version string to integer''))
               | Some pVer \<Rightarrow>
                   if pVer < 1 then ([], Returns (UsageError ''Must provide plugin version''))
                   else (case UnloadPlugin env pType pName pVer of
                           Inl msg \<Rightarrow>
                             ([RemoteUnloadPlugin pType pName pVer],
                              Returns (Errorf (''Error unloading plugin:\<newline>'' @ msg @ ''\<newline>'')))
                         | Inr r \<Rightarrow>
                             (RemoteUnloadPlugin pType pName pVer # unloadedText r,
                              ReturnsNil))))"

section \<open>swap\<close>

text \<open>
  The plugin to load (source lines 454 to 465): one or two positional arguments, the
  first of them the path; a signature file, when given, must contain \<open>.asc\<close>.
\<close>

definition swapPaths :: "Context \<Rightarrow> error + string list" where
  "swapPaths ctx =
     (let pAsc = plugin_asc ctx
      in if length (Args ctx) < 1 \<or> length (Args ctx) > 2
           then Inl (UsageError ''Incorrect usage:'')
         else if pAsc \<noteq> [] \<and> \<not> Contains pAsc ''.asc''
           then Inl (UsageError ''Must be a .asc file for the -a flag'')
         else Inr (Get (Args ctx) 0 # (if pAsc \<noteq> [] then [pAsc] else [])))"

text \<open>
  The plugin to unload (source lines 473 to 489): with two positional arguments the
  second is split at the list separator, and must give three pieces, the third a
  number; otherwise the three flags are read.
\<close>

definition swapUnloadSpec :: "Env \<Rightarrow> Context \<Rightarrow> error + string \<times> string \<times> int" where
  "swapUnloadSpec env ctx =
     (if length (Args ctx) = 2 then
        (let pDetails = SplitList (GOOS env) (Args ctx ! 1)
         in if length pDetails = 3 then
              (case Atoi (IntSize env) (pDetails ! 2) of
                 None \<Rightarrow> Inl (UsageError ''Can't convert version string to integer'')
               | Some pVer \<Rightarrow> Inr (pDetails ! 0, pDetails ! 1, pVer))
            else Inl (UsageError ''Missing type, name, or version''))
      else Inr (plugin_type ctx, plugin_name ctx, plugin_version ctx))"

text \<open>The checks of source lines 490 to 498; \<open>None\<close> when all three pass.\<close>

definition swapCheckSpec :: "string \<times> string \<times> int \<Rightarrow> error option" where
  "swapCheckSpec spec =
     (case spec of (pType, pName, pVer) \<Rightarrow>
        if pType = [] then Some (UsageError ''Must provide plugin type'')
        else if pName = [] then Some (UsageError ''Must provide plugin name'')
        else if pVer < 1 then Some (UsageError ''Must provide plugin version'')
        else None)"

text \<open>What \<open>swapPlugins\<close> prints on success (source lines 505 to 515).\<close>

definition swappedText :: "Env \<Rightarrow> LoadedPlugin \<Rightarrow> UnloadedPlugin \<Rightarrow> event list" where
  "swappedText env l u =
     [Stdout ''Plugin loaded\<newline>'',
      Stdout (''Name: '' @ lName l @ ''\<newline>''),
      Stdout (''Version: '' @ Itoa (lVersion l) @ ''\<newline>''),
      Stdout (''Type: '' @ lType l @ ''\<newline>''),
      Stdout (''Signed: '' @ fmtBool (lSigned l) @ ''\<newline>''),
      Stdout (''Loaded Time: '' @ formatTime env (lLoadedTimestamp l) @ ''\<newline>\<newline>''),
      Stdout (''\<newline>Plugin unloaded'' @ ''\<newline>''),
      Stdout (''Name: '' @ uName u @ ''\<newline>''),
      Stdout (''Version: '' @ Itoa (uVersion u) @ ''\<newline>''),
      Stdout (''Type: '' @ uType u @ ''\<newline>'')]"

text \<open>\<open>func swapPlugins(ctx *cli.Context) error\<close>.\<close>

definition swapPlugins :: "Env \<Rightarrow> Context \<Rightarrow> outcome" where
  "swapPlugins env ctx =
     (case swapPaths ctx of
        Inl e \<Rightarrow> ([], Returns e)
      | Inr paths \<Rightarrow>
          (case swapUnloadSpec env ctx of
             Inl e \<Rightarrow> ([], Returns e)
           | Inr (pType, pName, pVer) \<Rightarrow>
               (case swapCheckSpec (pType, pName, pVer) of
                  Some e \<Rightarrow> ([], Returns e)
                | None \<Rightarrow>
                    (case SwapPlugin env paths pType pName pVer of
                       Inl msg \<Rightarrow>
                         ([RemoteSwapPlugin paths pType pName pVer],
                          Returns (Errorf (''Error swapping plugins:\<newline>'' @ msg @ ''\<newline>'')))
                     | Inr (l, u) \<Rightarrow>
                         (RemoteSwapPlugin paths pType pName pVer # swappedText env l u,
                          ReturnsNil)))))"

section \<open>list-catalog\<close>

text \<open>\<open>func Filter(vs []Plugin, f func(Plugin) bool) []Plugin\<close>.\<close>

fun Filter :: "Plugin list \<Rightarrow> (Plugin \<Rightarrow> bool) \<Rightarrow> Plugin list" where
  "Filter [] f = []"
| "Filter (v # vs) f = (if f v then v # Filter vs f else Filter vs f)"

text \<open>
  \<open>func getPluginData(url string) ([]byte, error)\<close>: the request can fail, and so can
  reading the body of the answer.
\<close>

definition getPluginData :: "Env \<Rightarrow> string \<Rightarrow> string + string" where
  "getPluginData env url =
     (case httpGet env url of
        Inl e \<Rightarrow> Inl e
      | Inr resp \<Rightarrow> (case resp of Inl e \<Rightarrow> Inl e | Inr body \<Rightarrow> Inr body))"

text \<open>
  The filtering of \<open>listCatalog\<close> (source lines 586 to 603), on the values of the flags
  \<open>plugin-type\<close> and \<open>plugin-name\<close>.
\<close>

definition catalogFilter :: "string \<Rightarrow> string \<Rightarrow> Plugin list \<Rightarrow> Plugin list" where
  "catalogFilter pType pName pluginNames =
     (if pType \<noteq> [] \<and> pName \<noteq> [] then
        Filter pluginNames (\<lambda>v. Contains (Type v) pType \<and> Contains (FullName v) pName)
      else
        (let byType =
               (if pType \<noteq> [] then Filter pluginNames (\<lambda>v. Contains (Type v) pType)
                else pluginNames)
         in if pName \<noteq> [] then
              Filter byType (\<lambda>v. Contains (FullName v) pName \<or> Contains (Name v) pName)
            else byType))"

text \<open>\<open>func listCatalog(ctx *cli.Context) error\<close>.\<close>

definition listCatalog :: "Env \<Rightarrow> Context \<Rightarrow> outcome" where
  "listCatalog env ctx =
     (let url = ''http://staging.webapi.snap-telemetry.io/plugin''
      in case getPluginData env url of
           Inl e \<Rightarrow> ([HttpGet url], Returns (External e))
         | Inr body \<Rightarrow>
             (case UnmarshalPlugins env body of
                Inl e \<Rightarrow> ([HttpGet url], Returns (External e))
              | Inr pluginNames \<Rightarrow>
                  ([HttpGet url,
                    StdoutFormat
                      (MarshalIndent env
                         (catalogFilter (plugin_type ctx) (plugin_name ctx) pluginNames))],
                   ReturnsNil)))"

section \<open>release-links and download-release\<close>

text \<open>
  \<open>func latestReleaseData(url string) (map[string]interface{}, error)\<close>. The error of
  \<open>json.Unmarshal\<close> is dropped (the test after it reads the \<open>err\<close> of \<open>ReadAll\<close>, which
  is \<open>nil\<close> there), so a body that is no JSON object gives the \<open>nil\<close> map, which has no key.
\<close>

definition latestReleaseData ::
  "Env \<Rightarrow> string \<Rightarrow> event list \<times> (string + (string \<times> json) list)" where
  "latestReleaseData env url =
     (let link = ''https://api.github.com/repos/intelsdi-x/'' @ url @ ''/releases/latest''
      in case NewRequest env link of
           Some e \<Rightarrow> ([], Inl e)
         | None \<Rightarrow>
             (case httpGet env link of
                Inl e \<Rightarrow> ([HttpGet link], Inl e)
              | Inr resp \<Rightarrow>
                  (case resp of
                     Inl e \<Rightarrow> ([HttpGet link], Inl e)
                   | Inr body \<Rightarrow>
                       ([HttpGet link],
                        Inr (case UnmarshalObject env body of None \<Rightarrow> [] | Some data \<Rightarrow> data)))))"

text \<open>
  \<open>fmt.Println\<close> of one value of type \<open>interface{}\<close>, without the newline: a string as
  it is, \<open>nil\<close> as \<open><nil>\<close>; numbers, arrays and objects as the environment formats them.
\<close>

definition Sprint :: "Env \<Rightarrow> json option \<Rightarrow> string" where
  "Sprint env v =
     (case v of
        None \<Rightarrow> ''<nil>''
      | Some JNull \<Rightarrow> ''<nil>''
      | Some (JString s) \<Rightarrow> s
      | Some (JBool b) \<Rightarrow> fmtBool b
      | Some j \<Rightarrow> formatValue env j)"

text \<open>
  The body of the loop of \<open>listReleaseLinks\<close> (source line 654):
  \<open>fmt.Println(asset["browser_download_url"])\<close>.
\<close>

definition assetLine :: "Env \<Rightarrow> (string \<times> json) list \<Rightarrow> event" where
  "assetLine env asset = Stdout (Sprint env (map_of asset ''browser_download_url'') @ ''\<newline>'')"

text \<open>
  The loop of \<open>listReleaseLinks\<close> over the assets (source lines 652 to 655): each
  element is asserted to be an object, and its \<open>browser_download_url\<close> is printed.
\<close>

fun printAssets :: "Env \<Rightarrow> json list \<Rightarrow> outcome" where
  "printAssets env [] = ([], ReturnsNil)"
| "printAssets env (v # vs) =
     (case v of
        JObject asset \<Rightarrow>
          (case printAssets env vs of (es, r) \<Rightarrow> (assetLine env asset # es, r))
      | _ \<Rightarrow> ([], Panics (TypeAssertion (Some v))))"



text \<open>\<open>func listReleaseLinks(ctx *cli.Context) error\<close>.\<close>

definition listReleaseLinks :: "Env \<Rightarrow> Context \<Rightarrow> outcome" where
  "listReleaseLinks env ctx =
     (if length (Args ctx) \<noteq> 1 then ([], Returns (UsageError ''Incorrect usage:''))
      else (case latestReleaseData env (Get (Args ctx) 0) of
              (evs, Inl e) \<Rightarrow> (evs, Returns (External e))
            | (evs, Inr data) \<Rightarrow>
                (case map_of data ''assets'' of
                   Some (JArray assets) \<Rightarrow>
                     (case printAssets env assets of (es, r) \<Rightarrow> (evs @ es, r))
                 | other \<Rightarrow> (evs, Panics (TypeAssertion other)))))"

text \<open>
  \<open>func download(url, name string) error\<close>: the events of the download and the error it
  returns. A failure while the body is copied is the failure of reading it.
\<close>

definition download :: "Env \<Rightarrow> string \<Rightarrow> string \<Rightarrow> event list \<times> result" where
  "download env url name =
     (case rev (Split url (CHR ''/'')) of
        [] \<Rightarrow> ([], Panics IndexOutOfRange)
      | lastToken # _ \<Rightarrow>
          (let fileName = (if name = [] then lastToken else name);
               started =
                 [Stdout (''Downloading '' @ url @ '' to '' @ fileName @ ''\<newline>''),
                  FileCreate fileName]
           in case osCreate env fileName of
                Some e \<Rightarrow>
                  (started, Returns (Errorf (''Error while creating '' @ fileName @ '': '' @ e)))
              | None \<Rightarrow>
                  (case httpGet env url of
                     Inl e \<Rightarrow>
                       (started @ [HttpGet url],
                        Returns (Errorf (''Error while downloading '' @ url @ '': '' @ e)))
                   | Inr resp \<Rightarrow>
                       (case resp of
                          Inl e \<Rightarrow>
                            (started @ [HttpGet url],
                             Returns (Errorf (''Error while downloading '' @ url @ '': '' @ e)))
                        | Inr body \<Rightarrow>
                            (started @
                               [HttpGet url, FileWrite fileName body,
                                Stdout (Itoa (int (length body)) @ '' bytes downloaded.\<newline>'')],
                             ReturnsNil)))))"

text \<open>\<open>strings.Split(tag_name, ".")[0]\<close> (source line 669).\<close>

definition majorTag :: "string \<Rightarrow> string option" where
  "majorTag tag_name = (case Split tag_name (CHR ''.'') of [] \<Rightarrow> None | tag # _ \<Rightarrow> Some tag)"

text \<open>The \<open>switch runtime.GOARCH\<close> (source lines 672 to 683); \<open>None\<close> is its default.\<close>

definition releaseArch :: "string \<Rightarrow> string option" where
  "releaseArch goarch =
     (if goarch = ''amd64'' then Some ''x86_64''
      else if goarch = ''386'' then Some ''x86_32''
      else None)"

text \<open>The \<open>downloadLink\<close> of source line 684.\<close>

definition downloadLink :: "string \<Rightarrow> string \<Rightarrow> string \<Rightarrow> string \<Rightarrow> string" where
  "downloadLink pluginName tag os arch =
     ''https://github.com/intelsdi-x/'' @ pluginName @ ''/releases/download/'' @ tag
       @ ''/snap-plugin-publisher-file_'' @ os @ ''_'' @ arch"

text \<open>
  \<open>func downloadxPlugin(ctx *cli.Context) error\<close>. The error that \<open>download\<close> returns is
  dropped; a panic inside it is not.
\<close>

definition downloadxPlugin :: "Env \<Rightarrow> Context \<Rightarrow> outcome" where
  "downloadxPlugin env ctx =
     (if length (Args ctx) \<noteq> 1 then ([], Returns (UsageError ''Incorrect usage:''))
      else
        (let pluginName = Get (Args ctx) 0
         in case latestReleaseData env pluginName of
              (evs, Inl e) \<Rightarrow> (evs, Returns (External e))
            | (evs, Inr data) \<Rightarrow>
                (case map_of data ''tag_name'' of
                   Some (JString tag_name) \<Rightarrow>
                     (case majorTag tag_name of
                        None \<Rightarrow> (evs, Panics IndexOutOfRange)
                      | Some tag \<Rightarrow>
                          (case releaseArch (GOARCH env) of
                             None \<Rightarrow> (evs, Returns (Errorf ''This arch is not yet supported''))
                           | Some arch \<Rightarrow>
                               (case download env
                                       (downloadLink pluginName tag (GOOS env) arch) pluginName of
                                  (des, Panics p) \<Rightarrow> (evs @ des, Panics p)
                                | (des, _) \<Rightarrow> (evs @ des, ReturnsNil))))
                 | other \<Rightarrow> (evs, Panics (TypeAssertion other)))))"

section \<open>The names of the specification for the usage errors\<close>

definition MissingType :: error where
  "MissingType = UsageError ''Must provide plugin type''"

definition MissingName :: error where
  "MissingName = UsageError ''Must provide plugin name''"

definition InvalidVersion :: error where
  "InvalidVersion = UsageError ''Can't convert version string to integer''"

definition MissingVersion :: error where
  "MissingVersion = UsageError ''Must provide plugin version''"

section \<open>An environment to run the commands in\<close>

text \<open>
  Linux on amd64; a management client that always succeeds and answers with the plugin
  it was asked to unload; a network that answers every request with an empty object.
\<close>

definition exampleEnv :: Env where
  "exampleEnv =
     \<lparr>GOOS = ''linux'', GOARCH = ''amd64'', IntSize = 64,
      UnloadPlugin = (\<lambda>t n v. Inr \<lparr>uName = n, uVersion = v, uType = t\<rparr>),
      SwapPlugin = (\<lambda>ps t n v.
        Inr (\<lparr>lName = ''new-plugin'', lVersion = 3, lType = t, lSigned = True,
              lLoadedTimestamp = 0\<rparr>,
             \<lparr>uName = n, uVersion = v, uType = t\<rparr>)),
      formatTime = (\<lambda>t. ''Thu, 01 Jan 1970 00:00:00 UTC''),
      NewRequest = (\<lambda>u. None),
      httpGet = (\<lambda>u. Inr (Inr ''{}'')),
      UnmarshalPlugins = (\<lambda>b. Inr []),
      UnmarshalObject = (\<lambda>b. Some []),
      MarshalIndent = (\<lambda>ps. ''[]''),
      formatValue = (\<lambda>j. ''?''),
      osCreate = (\<lambda>f. None)\<rparr>"

text \<open>The example environment on another architecture, with a given latest release.\<close>

definition releaseEnv :: "string \<Rightarrow> (string \<times> json) list \<Rightarrow> Env" where
  "releaseEnv goarch data =
     exampleEnv\<lparr>GOARCH := goarch, UnmarshalObject := (\<lambda>b. Some data)\<rparr>"

text \<open>A catalog entry whose name, but not its full name, contains \<open>cpu\<close>.\<close>

definition exampleEntry :: Plugin where
  "exampleEntry =
     \<lparr>Name = ''cpu'', FullName = ''processor-stats'', Type = ''collector'',
      Owner = ''intelsdi-x'', Description = [], URL = [],
      Forks = 0, Stars = 0, Watchers = 0, Issues = 0\<rparr>"

section \<open>Facts about the library functions\<close>

lemma parseDigits_append:
  "parseDigits a (xs @ ys) = (case parseDigits a xs of None \<Rightarrow> None | Some b \<Rightarrow> parseDigits b ys)"
  by (induction xs arbitrary: a) auto

lemma digit_char: "d < 10 \<Longrightarrow> isDigit (char_of (48 + d)) \<and> digitVal (char_of (48 + d)) = d"
  by (simp add: isDigit_def digitVal_def)

lemma parseDigits_digits: "parseDigits a (digits n) = Some (a * 10 ^ length (digits n) + n)"
proof (induction n arbitrary: a rule: digits.induct)
  case (1 n)
  show ?case
  proof (cases "n < 10")
    case True
    then show ?thesis using digit_char[of n] by (simp add: digits.simps[of n])
  next
    case False
    have d: "n mod 10 < 10" by simp
    show ?thesis using False 1[OF False] digit_char[OF d]
      by (simp add: digits.simps[of n] parseDigits_append algebra_simps)
  qed
qed

lemma digits_nonempty: "digits n \<noteq> []"
  by (subst digits.simps) simp

lemma digits_isDigit: "c \<in> set (digits n) \<Longrightarrow> isDigit c"
proof (induction n rule: digits.induct)
  case (1 n)
  show ?case
  proof (cases "n < 10")
    case True
    then show ?thesis using 1(2) digit_char[of n] by (simp add: digits.simps[of n])
  next
    case False
    have d: "n mod 10 < 10" by simp
    show ?thesis using False 1 digit_char[OF d]
      by (auto simp add: digits.simps[of n])
  qed
qed

lemma isDigit_not_special:
  "isDigit c \<Longrightarrow> c \<noteq> CHR ''-'' \<and> c \<noteq> CHR ''+'' \<and> c \<noteq> CHR '':'' \<and> c \<noteq> CHR '';''
     \<and> c \<noteq> CHR 0x00 \<and> c \<noteq> CHR 0x22"
  by (auto simp: isDigit_def)

lemma Atoi_digits: "n < 2 ^ (bits - 1) \<Longrightarrow> Atoi bits (digits n) = Some (int n)"
proof -
  assume n: "n < 2 ^ (bits - 1)"
  obtain c r where cr: "digits n = c # r"
    using digits_nonempty[of n] by (cases "digits n") auto
  have "isDigit c" using digits_isDigit[of c n] cr by simp
  then have c: "c \<noteq> CHR ''-''" "c \<noteq> CHR ''+''" using isDigit_not_special by blast+
  have p: "parseDigits 0 (c # r) = Some n" using parseDigits_digits[of 0 n] cr by simp
  show ?thesis using n c p unfolding Atoi_def cr by (simp add: Let_def del: parseDigits.simps)
qed

lemma Atoi_Itoa: "0 \<le> v \<Longrightarrow> v < 2 ^ (bits - 1) \<Longrightarrow> Atoi bits (Itoa v) = Some v"
proof -
  assume v: "0 \<le> v" "v < 2 ^ (bits - 1)"
  then have "nat v < 2 ^ (bits - 1)"
    by (metis nat_less_iff of_nat_numeral of_nat_power)
  then show ?thesis using v Atoi_digits[of "nat v" bits] by (simp add: Itoa_def)
qed

lemma Itoa_no_special:
  "0 \<le> v \<Longrightarrow> c \<in> set (Itoa v) \<Longrightarrow> c \<noteq> CHR '':'' \<and> c \<noteq> CHR '';'' \<and> c \<noteq> CHR 0x00 \<and> c \<noteq> CHR 0x22"
  using digits_isDigit isDigit_not_special by (auto simp: Itoa_def)

lemma Itoa_nonempty: "Itoa v \<noteq> []"
  by (simp add: Itoa_def digits_nonempty)

lemma Split_no_sep: "sep \<notin> set xs \<Longrightarrow> Split xs sep = [xs]"
  by (induction xs) auto

lemma Split_at_sep: "sep \<notin> set xs \<Longrightarrow> Split (xs @ sep # rest) sep = xs # Split rest sep"
  by (induction xs) auto

lemma splitQuoted_run:
  "CHR '';'' \<notin> set xs \<Longrightarrow> CHR 0x22 \<notin> set xs \<Longrightarrow>
   splitQuoted False cur (xs @ rest) = splitQuoted False (cur @ xs) rest"
  by (induction xs arbitrary: cur) auto

lemma filter_no_quote: "CHR 0x22 \<notin> set xs \<Longrightarrow> filter (\<lambda>c. c \<noteq> CHR 0x22) xs = xs"
  by (induction xs) auto

lemma SplitList_token:
  assumes "ListSeparator goos \<notin> set t" "ListSeparator goos \<notin> set n" "ListSeparator goos \<notin> set v"
    and "goos = ''windows'' \<longrightarrow> CHR 0x22 \<notin> set t \<and> CHR 0x22 \<notin> set n \<and> CHR 0x22 \<notin> set v"
  shows "SplitList goos (t @ ListSeparator goos # n @ ListSeparator goos # v) = [t, n, v]"
proof (cases "goos = ''windows''")
  case True
  then have sep: "ListSeparator goos = CHR '';''" by (simp add: ListSeparator_def)
  have q: "CHR 0x22 \<notin> set t" "CHR 0x22 \<notin> set n" "CHR 0x22 \<notin> set v" using assms(4) True by auto
  have s: "CHR '';'' \<notin> set t" "CHR '';'' \<notin> set n" "CHR '';'' \<notin> set v" using assms(1-3) sep by auto
  have 1: "splitQuoted False [] (t @ CHR '';'' # n @ CHR '';'' # v) = t # splitQuoted False [] (n @ CHR '';'' # v)"
    using splitQuoted_run[OF s(1) q(1), of "[]"] by simp
  have 2: "splitQuoted False [] (n @ CHR '';'' # v) = n # splitQuoted False [] v"
    using splitQuoted_run[OF s(2) q(2), of "[]"] by simp
  have 3: "splitQuoted False [] v = [v]"
    using splitQuoted_run[OF s(3) q(3), of "[]" "[]"] by simp
  show ?thesis using True sep 1 2 3 q by (simp add: SplitList_def filter_no_quote)
next
  case False
  then show ?thesis using assms(1-3) by (simp add: SplitList_def Split_at_sep Split_no_sep)
qed

lemma Itoa_1: "Itoa 1 = ''1''"
  by code_simp

lemma Itoa_2: "Itoa 2 = ''2''"
  by code_simp

lemma Itoa_3: "Itoa 3 = ''3''"
  by code_simp

lemma Itoa_12: "Itoa 12 = ''12''"
  by code_simp

section \<open>Facts about the example environment\<close>

lemma exampleEnv_GOOS: "GOOS exampleEnv = ''linux''"
  by (simp add: exampleEnv_def)

lemma exampleEnv_GOARCH: "GOARCH exampleEnv = ''amd64''"
  by (simp add: exampleEnv_def)

lemma exampleEnv_IntSize: "IntSize exampleEnv = 64"
  by (simp add: exampleEnv_def)

lemma exampleEnv_separator: "ListSeparator (GOOS exampleEnv) = CHR '':''"
  by (simp add: ListSeparator_def exampleEnv_def)

lemma exampleEnv_SwapPlugin:
  "SwapPlugin exampleEnv ps t n v =
     Inr (\<lparr>lName = ''new-plugin'', lVersion = 3, lType = t, lSigned = True,
           lLoadedTimestamp = 0\<rparr>,
          \<lparr>uName = n, uVersion = v, uType = t\<rparr>)"
  by (simp add: exampleEnv_def)

lemma exampleEnv_UnloadPlugin:
  "UnloadPlugin exampleEnv t n v = Inr \<lparr>uName = n, uVersion = v, uType = t\<rparr>"
  by (simp add: exampleEnv_def)

lemma exampleEnv_formatTime: "formatTime exampleEnv t = ''Thu, 01 Jan 1970 00:00:00 UTC''"
  by (simp add: exampleEnv_def)

section \<open>The two forms of the plugin to unload in swap\<close>

lemma swap_example_token_rejected:
  "swapPlugins exampleEnv
     \<lparr>Args = [''new.plugin'', ''a:b:name:1''], plugin_asc = [],
      plugin_type = [], plugin_name = [], plugin_version = 0\<rparr>
   = ([], Returns (UsageError ''Missing type, name, or version''))"
proof -
  let ?ctx = "\<lparr>Args = [''new.plugin'', ''a:b:name:1''], plugin_asc = [],
      plugin_type = [], plugin_name = [], plugin_version = 0\<rparr>"
  have p: "swapPaths ?ctx = Inr [''new.plugin'']"
    by (simp add: swapPaths_def Get_def)
  have u: "swapUnloadSpec exampleEnv ?ctx = Inl (UsageError ''Missing type, name, or version'')"
    by (simp add: swapUnloadSpec_def exampleEnv_GOOS SplitList_def ListSeparator_def)
  show ?thesis by (simp add: swapPlugins_def p u)
qed

lemma swap_example_flags_call:
  "remoteCalls (fst (swapPlugins exampleEnv
     \<lparr>Args = [''new.plugin''], plugin_asc = [],
      plugin_type = ''a:b'', plugin_name = ''name'', plugin_version = 1\<rparr>))
   = [RemoteSwapPlugin [''new.plugin''] ''a:b'' ''name'' 1]"
proof -
  let ?ctx = "\<lparr>Args = [''new.plugin''], plugin_asc = [],
      plugin_type = ''a:b'', plugin_name = ''name'', plugin_version = 1\<rparr>"
  have p: "swapPaths ?ctx = Inr [''new.plugin'']"
    by (simp add: swapPaths_def Get_def)
  have u: "swapUnloadSpec exampleEnv ?ctx = Inr (''a:b'', ''name'', 1)"
    by (simp add: swapUnloadSpec_def)
  have c: "swapCheckSpec (''a:b'', ''name'', 1) = None"
    by (simp add: swapCheckSpec_def)
  show ?thesis
    by (simp add: swapPlugins_def p u c exampleEnv_SwapPlugin remoteCalls_def swappedText_def)
qed

text \<open>
  Claim C1, as amended. For a type and a name that are not empty and contain no list
  separator (and, on Windows, no double quote), and a version from 1 up to the largest
  \<open>int\<close>: swap resolves the token \<open>type<sep>name<sep>version\<close> given as second argument
  and the three flags to the same type, name and version; the checks pass; the two
  invocations have the same outcome; and when the signature flag is acceptable, the one
  call of the management client is \<open>SwapPlugin\<close> with that type, name and version.
\<close>

theorem swap_token_and_flags_agree:
  assumes "pType \<noteq> []" and "pName \<noteq> []" and "1 \<le> pVer" and "pVer < 2 ^ (IntSize env - 1)"
    and "ListSeparator (GOOS env) \<notin> set pType" and "ListSeparator (GOOS env) \<notin> set pName"
    and "GOOS env = ''windows'' \<longrightarrow> CHR 0x22 \<notin> set pType \<and> CHR 0x22 \<notin> set pName"
    and "Args tok =
          [path, pType @ ListSeparator (GOOS env) # pName @ ListSeparator (GOOS env) # Itoa pVer]"
    and "Args flg = [path]" and "plugin_type flg = pType" and "plugin_name flg = pName"
    and "plugin_version flg = pVer" and "plugin_asc flg = plugin_asc tok"
  shows "swapUnloadSpec env tok = Inr (pType, pName, pVer)
       \<and> swapUnloadSpec env flg = Inr (pType, pName, pVer)
       \<and> swapCheckSpec (pType, pName, pVer) = None
       \<and> swapPlugins env tok = swapPlugins env flg
       \<and> (plugin_asc tok = [] \<or> Contains (plugin_asc tok) ''.asc'' \<longrightarrow>
            remoteCalls (fst (swapPlugins env tok)) =
              [RemoteSwapPlugin (path # (if plugin_asc tok = [] then [] else [plugin_asc tok]))
                 pType pName pVer])"
proof -
  let ?sep = "ListSeparator (GOOS env)"
  have v0: "0 \<le> pVer" using assms(3) by simp
  have vs: "?sep \<notin> set (Itoa pVer)"
    using Itoa_no_special[OF v0] by (auto simp: ListSeparator_def)
  have vq: "CHR 0x22 \<notin> set (Itoa pVer)" using Itoa_no_special[OF v0] by auto
  have split: "SplitList (GOOS env) (pType @ ?sep # pName @ ?sep # Itoa pVer) = [pType, pName, Itoa pVer]"
    using SplitList_token[OF assms(5) assms(6) vs] assms(7) vq by simp
  have tok: "swapUnloadSpec env tok = Inr (pType, pName, pVer)"
    using assms(8) split Atoi_Itoa[OF v0 assms(4)] by (simp add: swapUnloadSpec_def)
  have flg: "swapUnloadSpec env flg = Inr (pType, pName, pVer)"
    using assms(9-12) by (simp add: swapUnloadSpec_def)
  have chk: "swapCheckSpec (pType, pName, pVer) = None"
    using assms(1-3) by (simp add: swapCheckSpec_def)
  have paths: "swapPaths tok = swapPaths flg"
    using assms(8,9,13) by (simp add: swapPaths_def Get_def Let_def)
  have eq: "swapPlugins env tok = swapPlugins env flg"
    by (cases "swapPaths flg") (simp_all add: swapPlugins_def tok flg paths)
  have calls: "remoteCalls (fst (swapPlugins env tok)) =
      [RemoteSwapPlugin (path # (if plugin_asc tok = [] then [] else [plugin_asc tok])) pType pName pVer]"
    if asc: "plugin_asc tok = [] \<or> Contains (plugin_asc tok) ''.asc''"
  proof -
    have p: "swapPaths tok = Inr (path # (if plugin_asc tok = [] then [] else [plugin_asc tok]))"
      using asc assms(8) by (auto simp: swapPaths_def Get_def Let_def)
    show ?thesis
      by (simp add: swapPlugins_def tok p chk remoteCalls_def swappedText_def
          split: sum.splits prod.splits)
  qed
  show ?thesis using tok flg chk eq calls by blast
qed

text \<open>The theorem at \<open>storage:old-plugin:12\<close> on Linux.\<close>

theorem swap_token_and_flags_agree_witness:
  "swapPlugins exampleEnv
     \<lparr>Args = [''new.plugin'', ''storage:old-plugin:12''], plugin_asc = ''new.plugin.asc'',
      plugin_type = [], plugin_name = [], plugin_version = 0\<rparr>
   = swapPlugins exampleEnv
     \<lparr>Args = [''new.plugin''], plugin_asc = ''new.plugin.asc'',
      plugin_type = ''storage'', plugin_name = ''old-plugin'', plugin_version = 12\<rparr>
   \<and> remoteCalls (fst (swapPlugins exampleEnv
     \<lparr>Args = [''new.plugin'', ''storage:old-plugin:12''], plugin_asc = ''new.plugin.asc'',
      plugin_type = [], plugin_name = [], plugin_version = 0\<rparr>))
     = [RemoteSwapPlugin [''new.plugin'', ''new.plugin.asc''] ''storage'' ''old-plugin'' 12]"
proof -
  let ?tok = "\<lparr>Args = [''new.plugin'', ''storage:old-plugin:12''],
      plugin_asc = ''new.plugin.asc'', plugin_type = [], plugin_name = [], plugin_version = 0\<rparr>"
  let ?flg = "\<lparr>Args = [''new.plugin''], plugin_asc = ''new.plugin.asc'',
      plugin_type = ''storage'', plugin_name = ''old-plugin'', plugin_version = 12\<rparr>"
  have h1: "''storage'' \<noteq> []" and h2: "''old-plugin'' \<noteq> []" and h3: "(1::int) \<le> 12" by simp_all
  have h4: "(12::int) < 2 ^ (IntSize exampleEnv - 1)" by (simp add: exampleEnv_IntSize)
  have h5: "ListSeparator (GOOS exampleEnv) \<notin> set ''storage''"
    and h6: "ListSeparator (GOOS exampleEnv) \<notin> set ''old-plugin''"
    by (simp_all add: exampleEnv_separator)
  have h7: "GOOS exampleEnv = ''windows'' \<longrightarrow>
      CHR 0x22 \<notin> set ''storage'' \<and> CHR 0x22 \<notin> set ''old-plugin''" by simp
  have h8: "Args ?tok = [''new.plugin'', ''storage'' @ ListSeparator (GOOS exampleEnv) #
      ''old-plugin'' @ ListSeparator (GOOS exampleEnv) # Itoa 12]"
    by (simp add: exampleEnv_separator Itoa_12)
  have h9: "Args ?flg = [''new.plugin'']" and h10: "plugin_type ?flg = ''storage''"
    and h11: "plugin_name ?flg = ''old-plugin''" and h12: "plugin_version ?flg = 12"
    and h13: "plugin_asc ?flg = plugin_asc ?tok" by simp_all
  have c: "Contains ''new.plugin.asc'' ''.asc''" by simp
  note t = swap_token_and_flags_agree [OF h1 h2 h3 h4 h5 h6 h7 h8 h9 h10 h11 h12 h13]
  from t have eq: "swapPlugins exampleEnv ?tok = swapPlugins exampleEnv ?flg" by blast
  from t have imp: "plugin_asc ?tok = [] \<or> Contains (plugin_asc ?tok) ''.asc'' \<Longrightarrow>
      remoteCalls (fst (swapPlugins exampleEnv ?tok)) =
      [RemoteSwapPlugin (''new.plugin'' # (if plugin_asc ?tok = [] then [] else [plugin_asc ?tok]))
         ''storage'' ''old-plugin'' 12]" by blast
  have pre: "plugin_asc ?tok = [] \<or> Contains (plugin_asc ?tok) ''.asc''" by simp
  have calls: "remoteCalls (fst (swapPlugins exampleEnv ?tok)) =
      [RemoteSwapPlugin [''new.plugin'', ''new.plugin.asc''] ''storage'' ''old-plugin'' 12]"
    using imp [OF pre] by simp
  from eq calls show ?thesis by blast
qed

text \<open>
  Claim C1 as stated fails: the type \<open>a:b\<close> is not empty, yet on Linux the token
  \<open>a:b:name:1\<close> splits into four pieces and is rejected before any call, while the flags
  with the same values are accepted.
\<close>

theorem swap_token_with_separator_counterexample:
  "''a:b'' \<noteq> [] \<and> ''name'' \<noteq> [] \<and> (1::int) \<le> 1
   \<and> ''a:b'' @ ListSeparator (GOOS exampleEnv) # ''name'' @ ListSeparator (GOOS exampleEnv) # Itoa 1
       = ''a:b:name:1''
   \<and> swapPlugins exampleEnv
        \<lparr>Args = [''new.plugin'', ''a:b:name:1''], plugin_asc = [],
         plugin_type = [], plugin_name = [], plugin_version = 0\<rparr>
       = ([], Returns (UsageError ''Missing type, name, or version''))
   \<and> remoteCalls (fst (swapPlugins exampleEnv
        \<lparr>Args = [''new.plugin''], plugin_asc = [],
         plugin_type = ''a:b'', plugin_name = ''name'', plugin_version = 1\<rparr>))
       = [RemoteSwapPlugin [''new.plugin''] ''a:b'' ''name'' 1]"
  using swap_example_token_rejected swap_example_flags_call by (simp add: exampleEnv_separator Itoa_1)

section \<open>Invalid plugins to unload\<close>

lemma Atoi_x: "Atoi 64 ''x'' = None"
  by (simp add: Atoi_def isDigit_def)

lemma Atoi_1: "Atoi 64 ''1'' = Some 1"
  using Atoi_Itoa [of 1 64] by (simp add: Itoa_1)

lemma Atoi_12: "Atoi 64 ''12'' = Some 12"
  using Atoi_Itoa [of 12 64] by (simp add: Itoa_12)

lemma unload_invalid:
  assumes "Get (Args ctx) 0 = [] \<or> Get (Args ctx) 1 = []
      \<or> Atoi (IntSize env) (Get (Args ctx) 2) = None
      \<or> (\<exists>v. Atoi (IntSize env) (Get (Args ctx) 2) = Some v \<and> v < 1)"
  shows "\<exists>e. unloadPlugin env ctx = ([], Returns e)
      \<and> (e = MissingType \<and> Get (Args ctx) 0 = []
         \<or> e = MissingName \<and> Get (Args ctx) 1 = []
         \<or> e = InvalidVersion \<and> Atoi (IntSize env) (Get (Args ctx) 2) = None
         \<or> e = MissingVersion \<and> (\<exists>v. Atoi (IntSize env) (Get (Args ctx) 2) = Some v \<and> v < 1))"
  using assms
  by (auto simp: unloadPlugin_def Let_def MissingType_def MissingName_def InvalidVersion_def
      MissingVersion_def split: option.splits)

lemma swap_token_invalid:
  assumes "swapPaths ctx = Inr paths" and "length (Args ctx) = 2"
    and "SplitList (GOOS env) (Args ctx ! 1) = [t, n, vs]"
    and "t = [] \<or> n = [] \<or> Atoi (IntSize env) vs = None
      \<or> (\<exists>v. Atoi (IntSize env) vs = Some v \<and> v < 1)"
  shows "\<exists>e. swapPlugins env ctx = ([], Returns e)
      \<and> (e = MissingType \<and> t = []
         \<or> e = MissingName \<and> n = []
         \<or> e = InvalidVersion \<and> Atoi (IntSize env) vs = None
         \<or> e = MissingVersion \<and> (\<exists>v. Atoi (IntSize env) vs = Some v \<and> v < 1))"
proof (cases "Atoi (IntSize env) vs")
  case None
  then have "swapUnloadSpec env ctx = Inl InvalidVersion"
    using assms(2,3) by (simp add: swapUnloadSpec_def InvalidVersion_def)
  then have "swapPlugins env ctx = ([], Returns InvalidVersion)"
    using assms(1) by (simp add: swapPlugins_def)
  with None show ?thesis by simp
next
  case (Some v)
  then have u: "swapUnloadSpec env ctx = Inr (t, n, v)"
    using assms(2,3) by (simp add: swapUnloadSpec_def)
  have bad: "t = [] \<or> n = [] \<or> v < 1" using assms(4) Some by simp
  have "swapPlugins env ctx = ([], Returns (the (swapCheckSpec (t, n, v))))"
    using assms(1) u bad by (auto simp: swapPlugins_def swapCheckSpec_def)
  moreover have "the (swapCheckSpec (t, n, v)) = MissingType \<and> t = []
      \<or> the (swapCheckSpec (t, n, v)) = MissingName \<and> n = []
      \<or> the (swapCheckSpec (t, n, v)) = MissingVersion \<and> v < 1"
    using bad by (auto simp: swapCheckSpec_def MissingType_def MissingName_def MissingVersion_def)
  ultimately show ?thesis using Some by auto
qed

lemma swap_flags_invalid:
  assumes "swapPaths ctx = Inr paths" and "length (Args ctx) \<noteq> 2"
    and bad: "plugin_type ctx = [] \<or> plugin_name ctx = [] \<or> plugin_version ctx < 1"
  shows "\<exists>e. swapPlugins env ctx = ([], Returns e)
      \<and> (e = MissingType \<and> plugin_type ctx = []
         \<or> e = MissingName \<and> plugin_name ctx = []
         \<or> e = MissingVersion \<and> plugin_version ctx < 1)"
proof -
  let ?spec = "(plugin_type ctx, plugin_name ctx, plugin_version ctx)"
  have u: "swapUnloadSpec env ctx = Inr ?spec"
    using assms(2) by (simp add: swapUnloadSpec_def)
  have "swapPlugins env ctx = ([], Returns (the (swapCheckSpec ?spec)))"
    using assms(1) u bad by (auto simp: swapPlugins_def swapCheckSpec_def)
  moreover have "the (swapCheckSpec ?spec) = MissingType \<and> plugin_type ctx = []
      \<or> the (swapCheckSpec ?spec) = MissingName \<and> plugin_name ctx = []
      \<or> the (swapCheckSpec ?spec) = MissingVersion \<and> plugin_version ctx < 1"
    using bad by (auto simp: swapCheckSpec_def MissingType_def MissingName_def MissingVersion_def)
  ultimately show ?thesis by auto
qed

lemma unload_usage_error_no_event:
  "snd (unloadPlugin env ctx) = Returns (UsageError m) \<Longrightarrow> fst (unloadPlugin env ctx) = []"
  by (auto simp: unloadPlugin_def Let_def split: if_splits option.splits sum.splits)

lemma swap_usage_error_no_event:
  "snd (swapPlugins env ctx) = Returns (UsageError m) \<Longrightarrow> fst (swapPlugins env ctx) = []"
  by (auto simp: swapPlugins_def split: sum.splits option.splits prod.splits)

text \<open>
  Claim C2. In unload (type, name and version string are the first three arguments), in
  swap with two arguments (the second splits into type, name and version string) and in
  swap with the flags, once the plugin to load is accepted: when the type is empty, or
  the name is empty, or the version string is not an integer, or the version is less
  than 1, the command returns the usage error of one of the conditions that hold
  (\<open>MissingType\<close>, \<open>MissingName\<close>, \<open>InvalidVersion\<close>, \<open>MissingVersion\<close>), and nothing
  has happened: no call of the management client, no output. More generally, neither
  command has called the client or printed anything when it returns a usage error.
\<close>

theorem invalid_spec_fails_without_remote_call:
  "(Get (Args ctx) 0 = [] \<or> Get (Args ctx) 1 = []
      \<or> Atoi (IntSize env) (Get (Args ctx) 2) = None
      \<or> (\<exists>v. Atoi (IntSize env) (Get (Args ctx) 2) = Some v \<and> v < 1)
    \<longrightarrow> (\<exists>e. unloadPlugin env ctx = ([], Returns e)
          \<and> (e = MissingType \<and> Get (Args ctx) 0 = []
             \<or> e = MissingName \<and> Get (Args ctx) 1 = []
             \<or> e = InvalidVersion \<and> Atoi (IntSize env) (Get (Args ctx) 2) = None
             \<or> e = MissingVersion
                 \<and> (\<exists>v. Atoi (IntSize env) (Get (Args ctx) 2) = Some v \<and> v < 1))))
   \<and> (swapPaths ctx = Inr paths \<and> length (Args ctx) = 2
        \<and> SplitList (GOOS env) (Args ctx ! 1) = [t, n, vs]
        \<and> (t = [] \<or> n = [] \<or> Atoi (IntSize env) vs = None
            \<or> (\<exists>v. Atoi (IntSize env) vs = Some v \<and> v < 1))
    \<longrightarrow> (\<exists>e. swapPlugins env ctx = ([], Returns e)
          \<and> (e = MissingType \<and> t = []
             \<or> e = MissingName \<and> n = []
             \<or> e = InvalidVersion \<and> Atoi (IntSize env) vs = None
             \<or> e = MissingVersion \<and> (\<exists>v. Atoi (IntSize env) vs = Some v \<and> v < 1))))
   \<and> (swapPaths ctx = Inr paths \<and> length (Args ctx) \<noteq> 2
        \<and> (plugin_type ctx = [] \<or> plugin_name ctx = [] \<or> plugin_version ctx < 1)
    \<longrightarrow> (\<exists>e. swapPlugins env ctx = ([], Returns e)
          \<and> (e = MissingType \<and> plugin_type ctx = []
             \<or> e = MissingName \<and> plugin_name ctx = []
             \<or> e = MissingVersion \<and> plugin_version ctx < 1)))
   \<and> (\<forall>m. snd (unloadPlugin env ctx) = Returns (UsageError m)
          \<longrightarrow> fst (unloadPlugin env ctx) = [])
   \<and> (\<forall>m. snd (swapPlugins env ctx) = Returns (UsageError m)
          \<longrightarrow> fst (swapPlugins env ctx) = [])"
proof (intro conjI impI allI)
  assume "Get (Args ctx) 0 = [] \<or> Get (Args ctx) 1 = []
      \<or> Atoi (IntSize env) (Get (Args ctx) 2) = None
      \<or> (\<exists>v. Atoi (IntSize env) (Get (Args ctx) 2) = Some v \<and> v < 1)"
  then show "\<exists>e. unloadPlugin env ctx = ([], Returns e)
          \<and> (e = MissingType \<and> Get (Args ctx) 0 = []
             \<or> e = MissingName \<and> Get (Args ctx) 1 = []
             \<or> e = InvalidVersion \<and> Atoi (IntSize env) (Get (Args ctx) 2) = None
             \<or> e = MissingVersion
                 \<and> (\<exists>v. Atoi (IntSize env) (Get (Args ctx) 2) = Some v \<and> v < 1))"
    by (rule unload_invalid)
next
  assume "swapPaths ctx = Inr paths \<and> length (Args ctx) = 2
        \<and> SplitList (GOOS env) (Args ctx ! 1) = [t, n, vs]
        \<and> (t = [] \<or> n = [] \<or> Atoi (IntSize env) vs = None
            \<or> (\<exists>v. Atoi (IntSize env) vs = Some v \<and> v < 1))"
  then show "\<exists>e. swapPlugins env ctx = ([], Returns e)
          \<and> (e = MissingType \<and> t = []
             \<or> e = MissingName \<and> n = []
             \<or> e = InvalidVersion \<and> Atoi (IntSize env) vs = None
             \<or> e = MissingVersion \<and> (\<exists>v. Atoi (IntSize env) vs = Some v \<and> v < 1))"
    using swap_token_invalid [of ctx paths env t n vs] by blast
next
  assume "swapPaths ctx = Inr paths \<and> length (Args ctx) \<noteq> 2
        \<and> (plugin_type ctx = [] \<or> plugin_name ctx = [] \<or> plugin_version ctx < 1)"
  then show "\<exists>e. swapPlugins env ctx = ([], Returns e)
          \<and> (e = MissingType \<and> plugin_type ctx = []
             \<or> e = MissingName \<and> plugin_name ctx = []
             \<or> e = MissingVersion \<and> plugin_version ctx < 1)"
    using swap_flags_invalid [of ctx paths env] by blast
next
  fix m assume "snd (unloadPlugin env ctx) = Returns (UsageError m)"
  then show "fst (unloadPlugin env ctx) = []" by (rule unload_usage_error_no_event)
next
  fix m assume "snd (swapPlugins env ctx) = Returns (UsageError m)"
  then show "fst (swapPlugins env ctx) = []" by (rule swap_usage_error_no_event)
qed

text \<open>
  The theorem at \<open>unload storage mock-collector x\<close>, at \<open>swap new.plugin :old-plugin:1\<close>
  and at swap with the version flag left at 0.
\<close>

theorem invalid_spec_fails_without_remote_call_witness:
  "unloadPlugin exampleEnv
     \<lparr>Args = [''storage'', ''mock-collector'', ''x''], plugin_asc = [],
      plugin_type = [], plugin_name = [], plugin_version = 0\<rparr>
     = ([], Returns InvalidVersion)
   \<and> swapPlugins exampleEnv
     \<lparr>Args = [''new.plugin'', '':old-plugin:1''], plugin_asc = [],
      plugin_type = [], plugin_name = [], plugin_version = 0\<rparr>
     = ([], Returns MissingType)
   \<and> swapPlugins exampleEnv
     \<lparr>Args = [''new.plugin''], plugin_asc = [],
      plugin_type = ''storage'', plugin_name = ''old-plugin'', plugin_version = 0\<rparr>
     = ([], Returns MissingVersion)"
proof -
  let ?u = "\<lparr>Args = [''storage'', ''mock-collector'', ''x''], plugin_asc = [],
      plugin_type = [], plugin_name = [], plugin_version = 0\<rparr>"
  let ?s = "\<lparr>Args = [''new.plugin'', '':old-plugin:1''], plugin_asc = [],
      plugin_type = [], plugin_name = [], plugin_version = 0\<rparr>"
  let ?f = "\<lparr>Args = [''new.plugin''], plugin_asc = [],
      plugin_type = ''storage'', plugin_name = ''old-plugin'', plugin_version = 0\<rparr>"
  have ua: "Get (Args ?u) 0 = ''storage''" "Get (Args ?u) 1 = ''mock-collector''"
    "Atoi (IntSize exampleEnv) (Get (Args ?u) 2) = None"
    by (simp_all add: Get_def exampleEnv_IntSize Atoi_x)
  from invalid_spec_fails_without_remote_call [of ?u exampleEnv] ua
  have 1: "unloadPlugin exampleEnv ?u = ([], Returns InvalidVersion)" by auto
  have sp: "swapPaths ?s = Inr [''new.plugin'']" by (simp add: swapPaths_def Get_def)
  have sl: "SplitList (GOOS exampleEnv) (Args ?s ! 1) = [[], ''old-plugin'', ''1'']"
    by (simp add: exampleEnv_GOOS SplitList_def ListSeparator_def)
  have sa: "Atoi (IntSize exampleEnv) ''1'' = Some 1" by (simp add: exampleEnv_IntSize Atoi_1)
  have sn: "length (Args ?s) = 2" by simp
  from invalid_spec_fails_without_remote_call
         [of ?s exampleEnv "[''new.plugin'']" "[]" "''old-plugin''" "''1''"] sp sl sa sn
  have 2: "swapPlugins exampleEnv ?s = ([], Returns MissingType)" by auto
  have fp: "swapPaths ?f = Inr [''new.plugin'']" by (simp add: swapPaths_def Get_def)
  have fa: "length (Args ?f) \<noteq> 2" "plugin_type ?f = ''storage''"
    "plugin_name ?f = ''old-plugin''" "plugin_version ?f = 0" by simp_all
  from invalid_spec_fails_without_remote_call [of ?f exampleEnv "[''new.plugin'']"] fp fa
  have 3: "swapPlugins exampleEnv ?f = ([], Returns MissingVersion)" by auto
  from 1 2 3 show ?thesis by blast
qed

section \<open>The flags of swap beside a second argument\<close>

lemma swap_example_token_run:
  "swapPlugins exampleEnv
     \<lparr>Args = [''new.plugin'', ''storage:old-plugin:12''], plugin_asc = [],
      plugin_type = t, plugin_name = n, plugin_version = v\<rparr>
   = (RemoteSwapPlugin [''new.plugin''] ''storage'' ''old-plugin'' 12 #
        swappedText exampleEnv
          \<lparr>lName = ''new-plugin'', lVersion = 3, lType = ''storage'', lSigned = True,
            lLoadedTimestamp = 0\<rparr>
          \<lparr>uName = ''old-plugin'', uVersion = 12, uType = ''storage''\<rparr>,
      ReturnsNil)"
proof -
  let ?ctx = "\<lparr>Args = [''new.plugin'', ''storage:old-plugin:12''], plugin_asc = [],
      plugin_type = t, plugin_name = n, plugin_version = v\<rparr>"
  have p: "swapPaths ?ctx = Inr [''new.plugin'']"
    by (simp add: swapPaths_def Get_def)
  have s: "SplitList ''linux'' ''storage:old-plugin:12'' = [''storage'', ''old-plugin'', ''12'']"
    by (simp add: SplitList_def ListSeparator_def)
  have u: "swapUnloadSpec exampleEnv ?ctx = Inr (''storage'', ''old-plugin'', 12)"
    by (simp add: swapUnloadSpec_def exampleEnv_GOOS exampleEnv_IntSize s Atoi_12)
  have c: "swapCheckSpec (''storage'', ''old-plugin'', 12) = None"
    by (simp add: swapCheckSpec_def)
  show ?thesis
    by (simp add: swapPlugins_def p u c exampleEnv_SwapPlugin)
qed

text \<open>
  Claim C10. Two invocations of swap with the same two positional arguments and the
  same signature flag resolve the same plugin to unload and have the same outcome,
  whatever the flags \<open>plugin-type\<close>, \<open>plugin-name\<close> and \<open>plugin-version\<close> are.
\<close>

theorem swap_two_args_ignores_flags:
  assumes "length (Args c1) = 2" and "Args c2 = Args c1" and "plugin_asc c2 = plugin_asc c1"
  shows "swapUnloadSpec env c1 = swapUnloadSpec env c2 \<and> swapPlugins env c1 = swapPlugins env c2"
proof -
  have u: "swapUnloadSpec env c1 = swapUnloadSpec env c2"
    using assms(1,2) by (simp add: swapUnloadSpec_def)
  have p: "swapPaths c1 = swapPaths c2"
    using assms(2,3) by (simp add: swapPaths_def Let_def)
  have "swapPlugins env c1 = swapPlugins env c2"
    unfolding swapPlugins_def u p ..
  with u show ?thesis by simp
qed

text \<open>
  The theorem at \<open>swap new.plugin storage:old-plugin:12\<close>, with the flags set to another
  plugin and with the flags unset: the call is for \<open>storage\<close>, \<open>old-plugin\<close>, 12.
\<close>

theorem swap_two_args_ignores_flags_witness:
  "swapPlugins exampleEnv
     \<lparr>Args = [''new.plugin'', ''storage:old-plugin:12''], plugin_asc = [],
      plugin_type = ''publisher'', plugin_name = ''other'', plugin_version = 7\<rparr>
   = swapPlugins exampleEnv
     \<lparr>Args = [''new.plugin'', ''storage:old-plugin:12''], plugin_asc = [],
      plugin_type = [], plugin_name = [], plugin_version = 0\<rparr>
   \<and> remoteCalls (fst (swapPlugins exampleEnv
     \<lparr>Args = [''new.plugin'', ''storage:old-plugin:12''], plugin_asc = [],
      plugin_type = ''publisher'', plugin_name = ''other'', plugin_version = 7\<rparr>))
   = [RemoteSwapPlugin [''new.plugin''] ''storage'' ''old-plugin'' 12]"
proof -
  let ?c1 = "\<lparr>Args = [''new.plugin'', ''storage:old-plugin:12''], plugin_asc = [],
      plugin_type = ''publisher'', plugin_name = ''other'', plugin_version = 7\<rparr>"
  let ?c2 = "\<lparr>Args = [''new.plugin'', ''storage:old-plugin:12''], plugin_asc = [],
      plugin_type = [], plugin_name = [], plugin_version = 0\<rparr>"
  have h1: "length (Args ?c1) = 2" and h2: "Args ?c2 = Args ?c1"
    and h3: "plugin_asc ?c2 = plugin_asc ?c1" by simp_all
  from swap_two_args_ignores_flags [OF h1 h2 h3, of exampleEnv]
  have eq: "swapPlugins exampleEnv ?c1 = swapPlugins exampleEnv ?c2" by blast
  have calls: "remoteCalls (fst (swapPlugins exampleEnv ?c1)) =
      [RemoteSwapPlugin [''new.plugin''] ''storage'' ''old-plugin'' 12]"
    by (simp add: swap_example_token_run remoteCalls_def swappedText_def)
  from eq calls show ?thesis by blast
qed

section \<open>What unload prints\<close>

lemma Atoi_2: "bits = 32 \<or> bits = 64 \<Longrightarrow> Atoi bits ''2'' = Some 2"
  using Atoi_Itoa [of 2 bits] by (auto simp: Itoa_2)

text \<open>
  Claim C8. \<open>unload storage mock-collector 2\<close>, with a management client that reports
  the unloading of storage, mock-collector, 2: the client is called once, for that
  plugin, the command returns \<open>nil\<close>, and the output is exactly the lines
  \<open>Plugin unloaded\<close>, \<open>Name: mock-collector\<close>, \<open>Version: 2\<close>, \<open>Type: storage\<close>, in that
  order and nothing else.
\<close>

theorem unload_scenario_output:
  assumes "Args ctx = [''storage'', ''mock-collector'', ''2'']"
    and "IntSize env = 32 \<or> IntSize env = 64"
    and "UnloadPlugin env ''storage'' ''mock-collector'' 2 =
           Inr \<lparr>uName = ''mock-collector'', uVersion = 2, uType = ''storage''\<rparr>"
  shows "unloadPlugin env ctx =
           ([RemoteUnloadPlugin ''storage'' ''mock-collector'' 2,
             Stdout ''Plugin unloaded\<newline>'',
             Stdout ''Name: mock-collector\<newline>'',
             Stdout ''Version: 2\<newline>'',
             Stdout ''Type: storage\<newline>''],
            ReturnsNil)
       \<and> stdout (fst (unloadPlugin env ctx)) =
           ''Plugin unloaded\<newline>Name: mock-collector\<newline>Version: 2\<newline>Type: storage\<newline>''"
proof -
  have a: "Atoi (IntSize env) ''2'' = Some 2" using assms(2) by (rule Atoi_2)
  have run: "unloadPlugin env ctx =
           ([RemoteUnloadPlugin ''storage'' ''mock-collector'' 2,
             Stdout ''Plugin unloaded\<newline>'',
             Stdout ''Name: mock-collector\<newline>'',
             Stdout ''Version: 2\<newline>'',
             Stdout ''Type: storage\<newline>''],
            ReturnsNil)"
    using assms(1,3) a by (simp add: unloadPlugin_def Get_def unloadedText_def Itoa_2)
  show ?thesis unfolding run by simp
qed

text \<open>The theorem in the example environment.\<close>

theorem unload_scenario_output_witness:
  "stdout (fst (unloadPlugin exampleEnv
     \<lparr>Args = [''storage'', ''mock-collector'', ''2''], plugin_asc = [],
      plugin_type = [], plugin_name = [], plugin_version = 0\<rparr>)) =
     ''Plugin unloaded\<newline>Name: mock-collector\<newline>Version: 2\<newline>Type: storage\<newline>''"
proof -
  let ?ctx = "\<lparr>Args = [''storage'', ''mock-collector'', ''2''], plugin_asc = [],
      plugin_type = [], plugin_name = [], plugin_version = 0\<rparr>"
  have h1: "Args ?ctx = [''storage'', ''mock-collector'', ''2'']" by simp
  have h2: "IntSize exampleEnv = 32 \<or> IntSize exampleEnv = 64" by (simp add: exampleEnv_IntSize)
  have h3: "UnloadPlugin exampleEnv ''storage'' ''mock-collector'' 2 =
           Inr \<lparr>uName = ''mock-collector'', uVersion = 2, uType = ''storage''\<rparr>"
    by (rule exampleEnv_UnloadPlugin)
  from unload_scenario_output [OF h1 h2 h3] show ?thesis by blast
qed

section \<open>What swap prints\<close>

lemma stdout_swappedText:
  "stdout (e # swappedText env l u) = stdout [e] @
     ''Plugin loaded\<newline>'' @
     ''Name: '' @ lName l @ ''\<newline>'' @
     ''Version: '' @ Itoa (lVersion l) @ ''\<newline>'' @
     ''Type: '' @ lType l @ ''\<newline>'' @
     ''Signed: '' @ fmtBool (lSigned l) @ ''\<newline>'' @
     ''Loaded Time: '' @ formatTime env (lLoadedTimestamp l) @ ''\<newline>'' @
     ''\<newline>'' @
     ''\<newline>'' @
     ''Plugin unloaded\<newline>'' @
     ''Name: '' @ uName u @ ''\<newline>'' @
     ''Version: '' @ Itoa (uVersion u) @ ''\<newline>'' @
     ''Type: '' @ uType u @ ''\<newline>''"
  by (cases e) (simp_all add: swappedText_def)

lemma swap_success:
  assumes "snd (swapPlugins env ctx) = ReturnsNil"
  shows "\<exists>paths pType pName pVer l u.
           SwapPlugin env paths pType pName pVer = Inr (l, u)
         \<and> fst (swapPlugins env ctx) =
             RemoteSwapPlugin paths pType pName pVer # swappedText env l u"
  using assms
  by (auto simp: swapPlugins_def split: sum.splits option.splits prod.splits)

lemma swap_example_stdout:
  "stdout (fst (swapPlugins exampleEnv
     \<lparr>Args = [''new.plugin'', ''storage:old-plugin:12''], plugin_asc = [],
      plugin_type = [], plugin_name = [], plugin_version = 0\<rparr>)) =
   ''Plugin loaded\<newline>Name: new-plugin\<newline>Version: 3\<newline>Type: storage\<newline>Signed: true\<newline>Loaded Time: Thu, 01 Jan 1970 00:00:00 UTC\<newline>\<newline>\<newline>Plugin unloaded\<newline>Name: old-plugin\<newline>Version: 12\<newline>Type: storage\<newline>''"
  by (simp add: swap_example_token_run stdout_swappedText Itoa_3 Itoa_12 fmtBool_def
      exampleEnv_formatTime)

text \<open>
  Claim C9, as amended. A swap that returns \<open>nil\<close> has printed the block of the loaded
  plugin (\<open>Plugin loaded\<close>, Name, Version, Type, Signed, Loaded Time), then two empty
  lines, then the block of the unloaded plugin (\<open>Plugin unloaded\<close>, Name, Version, Type),
  in that order, for the two plugins that the management client answered.
\<close>

theorem swap_output_blocks:
  assumes "snd (swapPlugins env ctx) = ReturnsNil"
  shows "\<exists>paths pType pName pVer l u.
           SwapPlugin env paths pType pName pVer = Inr (l, u)
         \<and> stdout (fst (swapPlugins env ctx)) =
             ''Plugin loaded\<newline>'' @
             ''Name: '' @ lName l @ ''\<newline>'' @
             ''Version: '' @ Itoa (lVersion l) @ ''\<newline>'' @
             ''Type: '' @ lType l @ ''\<newline>'' @
             ''Signed: '' @ fmtBool (lSigned l) @ ''\<newline>'' @
             ''Loaded Time: '' @ formatTime env (lLoadedTimestamp l) @ ''\<newline>'' @
             ''\<newline>'' @
             ''\<newline>'' @
             ''Plugin unloaded\<newline>'' @
             ''Name: '' @ uName u @ ''\<newline>'' @
             ''Version: '' @ Itoa (uVersion u) @ ''\<newline>'' @
             ''Type: '' @ uType u @ ''\<newline>''"
proof -
  from swap_success [OF assms] obtain paths pType pName pVer l u
    where r: "SwapPlugin env paths pType pName pVer = Inr (l, u)"
      and f: "fst (swapPlugins env ctx) = RemoteSwapPlugin paths pType pName pVer # swappedText env l u"
    by blast
  have "stdout (fst (swapPlugins env ctx)) = stdout (RemoteSwapPlugin paths pType pName pVer # swappedText env l u)"
    by (simp only: f)
  also have "\<dots> = ''Plugin loaded\<newline>'' @
             ''Name: '' @ lName l @ ''\<newline>'' @
             ''Version: '' @ Itoa (lVersion l) @ ''\<newline>'' @
             ''Type: '' @ lType l @ ''\<newline>'' @
             ''Signed: '' @ fmtBool (lSigned l) @ ''\<newline>'' @
             ''Loaded Time: '' @ formatTime env (lLoadedTimestamp l) @ ''\<newline>'' @
             ''\<newline>'' @
             ''\<newline>'' @
             ''Plugin unloaded\<newline>'' @
             ''Name: '' @ uName u @ ''\<newline>'' @
             ''Version: '' @ Itoa (uVersion u) @ ''\<newline>'' @
             ''Type: '' @ uType u @ ''\<newline>''"
    by (simp only: stdout_swappedText) simp
  finally show ?thesis using r by blast
qed

text \<open>The theorem at \<open>swap new.plugin storage:old-plugin:12\<close> in the example environment.\<close>

theorem swap_output_blocks_witness:
  "snd (swapPlugins exampleEnv
     \<lparr>Args = [''new.plugin'', ''storage:old-plugin:12''], plugin_asc = [],
      plugin_type = [], plugin_name = [], plugin_version = 0\<rparr>) = ReturnsNil
   \<and> (\<exists>paths pType pName pVer l u.
           SwapPlugin exampleEnv paths pType pName pVer = Inr (l, u)
         \<and> stdout (fst (swapPlugins exampleEnv
             \<lparr>Args = [''new.plugin'', ''storage:old-plugin:12''], plugin_asc = [],
              plugin_type = [], plugin_name = [], plugin_version = 0\<rparr>)) =
             ''Plugin loaded\<newline>'' @
             ''Name: '' @ lName l @ ''\<newline>'' @
             ''Version: '' @ Itoa (lVersion l) @ ''\<newline>'' @
             ''Type: '' @ lType l @ ''\<newline>'' @
             ''Signed: '' @ fmtBool (lSigned l) @ ''\<newline>'' @
             ''Loaded Time: '' @ formatTime exampleEnv (lLoadedTimestamp l) @ ''\<newline>'' @
             ''\<newline>'' @
             ''\<newline>'' @
             ''Plugin unloaded\<newline>'' @
             ''Name: '' @ uName u @ ''\<newline>'' @
             ''Version: '' @ Itoa (uVersion u) @ ''\<newline>'' @
             ''Type: '' @ uType u @ ''\<newline>'')"
proof -
  have h: "snd (swapPlugins exampleEnv
     \<lparr>Args = [''new.plugin'', ''storage:old-plugin:12''], plugin_asc = [],
      plugin_type = [], plugin_name = [], plugin_version = 0\<rparr>) = ReturnsNil"
    by (simp add: swap_example_token_run)
  from swap_output_blocks [OF h] h show ?thesis by blast
qed

text \<open>
  Claim C9 as stated fails: in that run two empty lines, not one, stand between the line
  \<open>Loaded Time\<close> and the line \<open>Plugin unloaded\<close>; the output is not the two blocks with
  one empty line between them.
\<close>

theorem swap_one_blank_line_counterexample:
  "snd (swapPlugins exampleEnv
     \<lparr>Args = [''new.plugin'', ''storage:old-plugin:12''], plugin_asc = [],
      plugin_type = [], plugin_name = [], plugin_version = 0\<rparr>) = ReturnsNil
   \<and> Split (stdout (fst (swapPlugins exampleEnv
        \<lparr>Args = [''new.plugin'', ''storage:old-plugin:12''], plugin_asc = [],
         plugin_type = [], plugin_name = [], plugin_version = 0\<rparr>))) (CHR ''\<newline>'') =
      [''Plugin loaded'', ''Name: new-plugin'', ''Version: 3'', ''Type: storage'',
       ''Signed: true'', ''Loaded Time: Thu, 01 Jan 1970 00:00:00 UTC'',
       [], [],
       ''Plugin unloaded'', ''Name: old-plugin'', ''Version: 12'', ''Type: storage'', []]
   \<and> stdout (fst (swapPlugins exampleEnv
        \<lparr>Args = [''new.plugin'', ''storage:old-plugin:12''], plugin_asc = [],
         plugin_type = [], plugin_name = [], plugin_version = 0\<rparr>)) \<noteq>
      ''Plugin loaded\<newline>Name: new-plugin\<newline>Version: 3\<newline>Type: storage\<newline>Signed: true\<newline>Loaded Time: Thu, 01 Jan 1970 00:00:00 UTC\<newline>'' @
      ''\<newline>'' @
      ''Plugin unloaded\<newline>Name: old-plugin\<newline>Version: 12\<newline>Type: storage\<newline>''"
proof -
  have r: "snd (swapPlugins exampleEnv
     \<lparr>Args = [''new.plugin'', ''storage:old-plugin:12''], plugin_asc = [],
      plugin_type = [], plugin_name = [], plugin_version = 0\<rparr>) = ReturnsNil"
    by (simp add: swap_example_token_run)
  show ?thesis unfolding swap_example_stdout using r by simp
qed

section \<open>The filters of list-catalog\<close>

lemma Filter_filter: "Filter vs f = filter f vs"
  by (induction vs) auto

lemma catalogFilter_both:
  "pType \<noteq> [] \<Longrightarrow> pName \<noteq> [] \<Longrightarrow>
   catalogFilter pType pName ps =
     filter (\<lambda>v. Contains (Type v) pType \<and> Contains (FullName v) pName) ps"
  by (simp add: catalogFilter_def Filter_filter)

lemma catalogFilter_type_then_name:
  "pType \<noteq> [] \<Longrightarrow> pName \<noteq> [] \<Longrightarrow>
   catalogFilter [] pName (catalogFilter pType [] ps) =
     filter (\<lambda>v. Contains (Type v) pType
                \<and> (Contains (FullName v) pName \<or> Contains (Name v) pName)) ps"
  by (simp add: catalogFilter_def Filter_filter conj_commute)

lemma catalogFilter_name_only:
  "pName \<noteq> [] \<Longrightarrow>
   catalogFilter [] pName ps =
     filter (\<lambda>v. Contains (FullName v) pName \<or> Contains (Name v) pName) ps"
  by (simp add: catalogFilter_def Filter_filter)

text \<open>
  Claim C3 does not hold of the code. Filtering \<open>exampleEntry\<close> by the type \<open>coll\<close> and
  then by the name \<open>cpu\<close> keeps it, since the name filter alone also looks at \<open>Name\<close>;
  filtering by both at once drops it, since that branch looks at \<open>FullName\<close> only.
\<close>

theorem catalog_type_then_name_differs:
  "catalogFilter [] ''cpu'' (catalogFilter ''coll'' [] [exampleEntry]) = [exampleEntry]
   \<and> catalogFilter ''coll'' ''cpu'' [exampleEntry] = []"
  by (simp add: catalogFilter_def exampleEntry_def)

text \<open>
  Claim C4 does not hold of the code. The name of \<open>exampleEntry\<close> contains \<open>cpu\<close>, and
  the name filter alone matches it; with the type filter \<open>coll\<close>, which its type
  contains, the same name filter no longer matches it.
\<close>

theorem catalog_name_rule_depends_on_type_filter:
  "Contains (Name exampleEntry) ''cpu'' \<and> \<not> Contains (FullName exampleEntry) ''cpu''
   \<and> Contains (Type exampleEntry) ''coll''
   \<and> catalogFilter [] ''cpu'' [exampleEntry] = [exampleEntry]
   \<and> catalogFilter ''coll'' ''cpu'' [exampleEntry] = []"
  by (simp add: catalogFilter_def exampleEntry_def)

section \<open>release-links on a malformed release\<close>

lemma latestReleaseData_quiet: "stdout (fst (latestReleaseData env url)) = []"
  by (simp add: latestReleaseData_def Let_def split: option.splits sum.splits)

lemma printAssets_objects:
  "printAssets env (map JObject objs) = (map (assetLine env) objs, ReturnsNil)"
  by (induction objs) (simp_all add: assetLine_def)

lemma printAssets_stops:
  "\<forall>a. v \<noteq> JObject a \<Longrightarrow>
   printAssets env (map JObject objs @ v # rest) =
     (map (assetLine env) objs, Panics (TypeAssertion (Some v)))"
proof (induction objs)
  case Nil
  then show ?case by (cases v) simp_all
next
  case (Cons a objs)
  then show ?case by (simp add: assetLine_def)
qed

lemma listReleaseLinks_no_assets:
  assumes "length (Args ctx) = 1" and "latestReleaseData env (Get (Args ctx) 0) = (evs, Inr data)"
    and "\<forall>assets. map_of data ''assets'' \<noteq> Some (JArray assets)"
  shows "listReleaseLinks env ctx = (evs, Panics (TypeAssertion (map_of data ''assets'')))"
  using assms by (simp add: listReleaseLinks_def split: option.splits json.splits)

lemma listReleaseLinks_bad_element:
  assumes "length (Args ctx) = 1" and "latestReleaseData env (Get (Args ctx) 0) = (evs, Inr data)"
    and "map_of data ''assets'' = Some (JArray (map JObject objs @ v # rest))"
    and "\<forall>a. v \<noteq> JObject a"
  shows "listReleaseLinks env ctx =
           (evs @ map (assetLine env) objs, Panics (TypeAssertion (Some v)))"
  using assms by (simp add: listReleaseLinks_def printAssets_stops)

lemma listReleaseLinks_objects:
  assumes "length (Args ctx) = 1" and "latestReleaseData env (Get (Args ctx) 0) = (evs, Inr data)"
    and "map_of data ''assets'' = Some (JArray (map JObject objs))"
  shows "listReleaseLinks env ctx = (evs @ map (assetLine env) objs, ReturnsNil)"
  using assms by (simp add: listReleaseLinks_def printAssets_objects)

text \<open>
  Claim C5, as amended. Once the latest release is fetched: when \<open>assets\<close> is missing or
  is no sequence, release-links panics on the type assertion and has printed nothing;
  when \<open>assets\<close> is a sequence whose first element that is no object is \<open>v\<close>, it has
  printed the line of every element before \<open>v\<close> and panics on \<open>v\<close>; when every element
  is an object, it prints a line for each and returns \<open>nil\<close>, also for an object without
  a \<open>browser_download_url\<close> string. No error is returned for a malformed release.
\<close>

theorem release_links_malformed_panics:
  "length (Args ctx) = 1 \<and> latestReleaseData env (Get (Args ctx) 0) = (evs, Inr data)
   \<longrightarrow>
     ((\<forall>assets. map_of data ''assets'' \<noteq> Some (JArray assets))
        \<longrightarrow> listReleaseLinks env ctx = (evs, Panics (TypeAssertion (map_of data ''assets'')))
            \<and> stdout (fst (listReleaseLinks env ctx)) = [])
   \<and> (map_of data ''assets'' = Some (JArray (map JObject objs @ v # rest))
        \<and> (\<forall>a. v \<noteq> JObject a)
        \<longrightarrow> listReleaseLinks env ctx =
              (evs @ map (assetLine env) objs, Panics (TypeAssertion (Some v))))
   \<and> (map_of data ''assets'' = Some (JArray (map JObject objs))
        \<longrightarrow> listReleaseLinks env ctx = (evs @ map (assetLine env) objs, ReturnsNil))"
proof (intro impI conjI; (elim conjE)?)
  assume a: "length (Args ctx) = 1" "latestReleaseData env (Get (Args ctx) 0) = (evs, Inr data)"
    and n: "\<forall>assets. map_of data ''assets'' \<noteq> Some (JArray assets)"
  show r: "listReleaseLinks env ctx = (evs, Panics (TypeAssertion (map_of data ''assets'')))"
    using a n by (rule listReleaseLinks_no_assets)
  have "stdout evs = []" using latestReleaseData_quiet [of env "Get (Args ctx) 0"] a(2) by simp
  then show "stdout (fst (listReleaseLinks env ctx)) = []" by (simp add: r)
next
  assume a: "length (Args ctx) = 1" "latestReleaseData env (Get (Args ctx) 0) = (evs, Inr data)"
    and b: "map_of data ''assets'' = Some (JArray (map JObject objs @ v # rest))"
      "\<forall>a. v \<noteq> JObject a"
  show "listReleaseLinks env ctx =
              (evs @ map (assetLine env) objs, Panics (TypeAssertion (Some v)))"
    using a b by (rule listReleaseLinks_bad_element)
next
  assume a: "length (Args ctx) = 1" "latestReleaseData env (Get (Args ctx) 0) = (evs, Inr data)"
    and b: "map_of data ''assets'' = Some (JArray (map JObject objs))"
  show "listReleaseLinks env ctx = (evs @ map (assetLine env) objs, ReturnsNil)"
    using a b by (rule listReleaseLinks_objects)
qed

lemma releaseEnv_latest:
  "latestReleaseData (releaseEnv goarch data) url =
     ([HttpGet (''https://api.github.com/repos/intelsdi-x/'' @ url @ ''/releases/latest'')],
      Inr data)"
  by (simp add: latestReleaseData_def releaseEnv_def exampleEnv_def)

lemma releaseEnv_GOOS: "GOOS (releaseEnv goarch data) = ''linux''"
  by (simp add: releaseEnv_def exampleEnv_def)

lemma releaseEnv_GOARCH: "GOARCH (releaseEnv goarch data) = goarch"
  by (simp add: releaseEnv_def exampleEnv_def)

lemma release_links_example_no_assets:
  "listReleaseLinks (releaseEnv ''amd64'' [(''message'', JString ''Not Found'')])
     \<lparr>Args = [''snap-plugin-publisher-file''], plugin_asc = [],
      plugin_type = [], plugin_name = [], plugin_version = 0\<rparr>
   = ([HttpGet ''https://api.github.com/repos/intelsdi-x/snap-plugin-publisher-file/releases/latest''],
      Panics (TypeAssertion None))"
  by (simp add: listReleaseLinks_def Get_def releaseEnv_latest)

lemma release_links_example_bad_element:
  "listReleaseLinks
     (releaseEnv ''amd64'' [(''assets'', JArray
        [JObject [(''browser_download_url'', JString ''https://example.org/a'')],
         JString ''b''])])
     \<lparr>Args = [''snap-plugin-publisher-file''], plugin_asc = [],
      plugin_type = [], plugin_name = [], plugin_version = 0\<rparr>
   = ([HttpGet ''https://api.github.com/repos/intelsdi-x/snap-plugin-publisher-file/releases/latest'',
       Stdout ''https://example.org/a\<newline>''],
      Panics (TypeAssertion (Some (JString ''b''))))"
  by (simp add: listReleaseLinks_def Get_def releaseEnv_latest assetLine_def Sprint_def)

text \<open>
  The theorem at a release without \<open>assets\<close>, at one whose third asset is an array, and
  at one whose second asset has no \<open>browser_download_url\<close>.
\<close>

theorem release_links_malformed_panics_witness:
  "listReleaseLinks (releaseEnv ''amd64'' [(''tag_name'', JString ''2.4.1-beta'')])
     \<lparr>Args = [''snap-plugin-publisher-file''], plugin_asc = [],
      plugin_type = [], plugin_name = [], plugin_version = 0\<rparr>
   = ([HttpGet ''https://api.github.com/repos/intelsdi-x/snap-plugin-publisher-file/releases/latest''],
      Panics (TypeAssertion None))
   \<and> listReleaseLinks
       (releaseEnv ''amd64'' [(''assets'', JArray
          [JObject [(''browser_download_url'', JString ''https://example.org/a'')],
           JObject [(''name'', JString ''b'')],
           JArray []])])
       \<lparr>Args = [''snap-plugin-publisher-file''], plugin_asc = [],
        plugin_type = [], plugin_name = [], plugin_version = 0\<rparr>
     = ([HttpGet ''https://api.github.com/repos/intelsdi-x/snap-plugin-publisher-file/releases/latest'',
         Stdout ''https://example.org/a\<newline>'', Stdout ''<nil>\<newline>''],
        Panics (TypeAssertion (Some (JArray []))))
   \<and> listReleaseLinks
       (releaseEnv ''amd64'' [(''assets'', JArray
          [JObject [(''browser_download_url'', JString ''https://example.org/a'')],
           JObject [(''name'', JString ''b'')]])])
       \<lparr>Args = [''snap-plugin-publisher-file''], plugin_asc = [],
        plugin_type = [], plugin_name = [], plugin_version = 0\<rparr>
     = ([HttpGet ''https://api.github.com/repos/intelsdi-x/snap-plugin-publisher-file/releases/latest'',
         Stdout ''https://example.org/a\<newline>'', Stdout ''<nil>\<newline>''],
        ReturnsNil)"
proof -
  let ?ctx = "\<lparr>Args = [''snap-plugin-publisher-file''], plugin_asc = [],
      plugin_type = [], plugin_name = [], plugin_version = 0\<rparr>"
  let ?link = "''https://api.github.com/repos/intelsdi-x/snap-plugin-publisher-file/releases/latest''"
  let ?a = "[(''browser_download_url'', JString ''https://example.org/a'')]"
  let ?b = "[(''name'', JString ''b'')]"
  let ?d1 = "[(''tag_name'', JString ''2.4.1-beta'')]"
  let ?d2 = "[(''assets'', JArray [JObject ?a, JObject ?b, JArray []])]"
  let ?d3 = "[(''assets'', JArray [JObject ?a, JObject ?b])]"
  have n: "length (Args ?ctx) = 1" by simp
  have l: "latestReleaseData (releaseEnv ''amd64'' d) (Get (Args ?ctx) 0) = ([HttpGet ?link], Inr d)" for d
    by (simp add: Get_def releaseEnv_latest)
  have lines: "map (assetLine (releaseEnv ''amd64'' d)) [?a, ?b] =
      [Stdout ''https://example.org/a\<newline>'', Stdout ''<nil>\<newline>'']" for d
    by (simp add: assetLine_def Sprint_def)
  have 1: "listReleaseLinks (releaseEnv ''amd64'' ?d1) ?ctx = ([HttpGet ?link], Panics (TypeAssertion None))"
    using release_links_malformed_panics [of ?ctx "releaseEnv ''amd64'' ?d1" "[HttpGet ?link]" ?d1] n l [of ?d1]
    by simp
  have 2: "listReleaseLinks (releaseEnv ''amd64'' ?d2) ?ctx =
      ([HttpGet ?link, Stdout ''https://example.org/a\<newline>'', Stdout ''<nil>\<newline>''],
       Panics (TypeAssertion (Some (JArray []))))"
    using release_links_malformed_panics
      [of ?ctx "releaseEnv ''amd64'' ?d2" "[HttpGet ?link]" ?d2 "[?a, ?b]" "JArray []" "[]"] n l [of ?d2]
      lines [of ?d2]
    by simp
  have 3: "listReleaseLinks (releaseEnv ''amd64'' ?d3) ?ctx =
      ([HttpGet ?link, Stdout ''https://example.org/a\<newline>'', Stdout ''<nil>\<newline>''],
       ReturnsNil)"
    using release_links_malformed_panics
      [of ?ctx "releaseEnv ''amd64'' ?d3" "[HttpGet ?link]" ?d3 "[?a, ?b]"] n l [of ?d3] lines [of ?d3]
    by simp
  from 1 2 3 show ?thesis by blast
qed

text \<open>
  Claim C5 as stated fails: on the answer \<open>{"message": "Not Found"}\<close> release-links
  panics instead of returning an error, and on a release whose second asset is a
  string it panics after it has printed the URL of the first asset.
\<close>

theorem release_links_malformed_counterexample:
  "listReleaseLinks (releaseEnv ''amd64'' [(''message'', JString ''Not Found'')])
     \<lparr>Args = [''snap-plugin-publisher-file''], plugin_asc = [],
      plugin_type = [], plugin_name = [], plugin_version = 0\<rparr>
   = ([HttpGet ''https://api.github.com/repos/intelsdi-x/snap-plugin-publisher-file/releases/latest''],
      Panics (TypeAssertion None))
   \<and> snd (listReleaseLinks
       (releaseEnv ''amd64'' [(''assets'', JArray
          [JObject [(''browser_download_url'', JString ''https://example.org/a'')],
           JString ''b''])])
       \<lparr>Args = [''snap-plugin-publisher-file''], plugin_asc = [],
        plugin_type = [], plugin_name = [], plugin_version = 0\<rparr>)
     = Panics (TypeAssertion (Some (JString ''b'')))
   \<and> stdout (fst (listReleaseLinks
       (releaseEnv ''amd64'' [(''assets'', JArray
          [JObject [(''browser_download_url'', JString ''https://example.org/a'')],
           JString ''b''])])
       \<lparr>Args = [''snap-plugin-publisher-file''], plugin_asc = [],
        plugin_type = [], plugin_name = [], plugin_version = 0\<rparr>))
     = ''https://example.org/a\<newline>''"
  by (simp add: release_links_example_no_assets release_links_example_bad_element)

section \<open>download-release: the tag and the architecture\<close>

lemma Split_nonempty: "Split s sep \<noteq> []"
  by (induction s) (auto split: list.splits)

lemma Split_hd: "Split s sep = takeWhile (\<lambda>c. c \<noteq> sep) s # tl (Split s sep)"
  by (induction s) (auto split: list.splits)

lemma majorTag_takeWhile: "majorTag t = Some (takeWhile (\<lambda>c. c \<noteq> CHR ''.'') t)"
proof -
  obtain a as where s: "Split t (CHR ''.'') = a # as"
    using Split_nonempty [of t "CHR ''.''"] by (cases "Split t (CHR ''.'')") auto
  with Split_hd [of t "CHR ''.''"] have "a = takeWhile (\<lambda>c. c \<noteq> CHR ''.'') t" by simp
  with s show ?thesis by (simp add: majorTag_def)
qed

lemma majorTag_prefix: "CHR ''.'' \<notin> set major \<Longrightarrow> majorTag (major @ CHR ''.'' # rest) = Some major"
proof -
  assume "CHR ''.'' \<notin> set major"
  then have "takeWhile (\<lambda>c. c \<noteq> CHR ''.'') (major @ CHR ''.'' # rest) = major"
    by (induction major) auto
  then show ?thesis by (simp add: majorTag_takeWhile)
qed

lemma download_no_panic: "snd (download env url name) \<noteq> Panics p"
proof -
  obtain t ts where "rev (Split url (CHR ''/'')) = t # ts"
    using Split_nonempty [of url "CHR ''/''"] by (cases "rev (Split url (CHR ''/''))") auto
  then show ?thesis
    by (simp add: download_def Let_def split: option.splits sum.splits)
qed

lemma downloadx_supported:
  assumes "length (Args ctx) = 1"
    and "latestReleaseData env (Get (Args ctx) 0) = (evs, Inr data)"
    and "map_of data ''tag_name'' = Some (JString tag_name)"
    and "majorTag tag_name = Some tag"
    and "releaseArch (GOARCH env) = Some arch"
  shows "downloadxPlugin env ctx =
           (evs @ fst (download env (downloadLink (Get (Args ctx) 0) tag (GOOS env) arch)
                         (Get (Args ctx) 0)),
            ReturnsNil)"
proof -
  let ?d = "download env (downloadLink (Get (Args ctx) 0) tag (GOOS env) arch) (Get (Args ctx) 0)"
  have "snd ?d \<noteq> Panics p" for p by (rule download_no_panic)
  then have "(case ?d of (des, Panics p) \<Rightarrow> (evs @ des, Panics p)
                | (des, _) \<Rightarrow> (evs @ des, ReturnsNil)) = (evs @ fst ?d, ReturnsNil)"
    by (cases ?d; cases "snd ?d") auto
  then show ?thesis
    using assms by (simp add: downloadxPlugin_def Let_def)
qed

lemma downloadx_unsupported:
  assumes "length (Args ctx) = 1"
    and "latestReleaseData env (Get (Args ctx) 0) = (evs, Inr data)"
    and "map_of data ''tag_name'' = Some (JString tag_name)"
    and "releaseArch (GOARCH env) = None"
  shows "downloadxPlugin env ctx = (evs, Returns (Errorf ''This arch is not yet supported''))"
  using assms by (simp add: downloadxPlugin_def Let_def majorTag_takeWhile)

lemma downloadx_unsupported_events:
  assumes "releaseArch (GOARCH env) = None"
  shows "fst (downloadxPlugin env ctx) =
           (if length (Args ctx) = 1 then fst (latestReleaseData env (Get (Args ctx) 0)) else [])"
  using assms
  by (cases "latestReleaseData env (Get (Args ctx) 0)")
     (auto simp: downloadxPlugin_def Let_def majorTag_takeWhile
           split: sum.splits option.splits json.splits)

lemma releaseArch_None: "releaseArch goarch = None \<longleftrightarrow> goarch \<noteq> ''amd64'' \<and> goarch \<noteq> ''386''"
  by (simp add: releaseArch_def)

lemma download_named:
  assumes "name \<noteq> []" and "osCreate env name = None" and "httpGet env url = Inr (Inr body)"
  shows "download env url name =
           ([Stdout (''Downloading '' @ url @ '' to '' @ name @ ''\<newline>''),
             FileCreate name, HttpGet url, FileWrite name body,
             Stdout (Itoa (int (length body)) @ '' bytes downloaded.\<newline>'')],
            ReturnsNil)"
proof -
  obtain t ts where "rev (Split url (CHR ''/'')) = t # ts"
    using Split_nonempty [of url "CHR ''/''"] by (cases "rev (Split url (CHR ''/''))") auto
  then show ?thesis using assms by (simp add: download_def Let_def)
qed

lemma releaseEnv_download:
  "name \<noteq> [] \<Longrightarrow>
   fst (download (releaseEnv goarch data) url name) =
     [Stdout (''Downloading '' @ url @ '' to '' @ name @ ''\<newline>''),
      FileCreate name, HttpGet url, FileWrite name ''{}'',
      Stdout ''2 bytes downloaded.\<newline>'']"
proof -
  assume n: "name \<noteq> []"
  have c: "osCreate (releaseEnv goarch data) name = None"
    and h: "httpGet (releaseEnv goarch data) url = Inr (Inr ''{}'')"
    by (simp_all add: releaseEnv_def exampleEnv_def)
  show ?thesis using download_named [OF n c h] by (simp add: Itoa_2)
qed

lemma majorTag_example: "majorTag ''2.4.1-beta'' = Some ''2''"
  by (simp add: majorTag_def)

text \<open>
  Claim C6. The switch maps \<open>amd64\<close> to \<open>x86_64\<close> and \<open>386\<close> to \<open>x86_32\<close>, and nothing
  else. Once the latest release is fetched and its \<open>tag_name\<close> is a string:
  download-release on \<open>amd64\<close> and on \<open>386\<close> downloads from the link with that name,
  and on any other architecture it returns the error \<open>This arch is not yet supported\<close>
  with no event beyond the fetch of the release. On such an architecture there is no
  event beyond that fetch in any run: no link is built, no download starts.
\<close>

theorem release_arch_mapping:
  "releaseArch ''amd64'' = Some ''x86_64'' \<and> releaseArch ''386'' = Some ''x86_32''
   \<and> (goarch \<noteq> ''amd64'' \<and> goarch \<noteq> ''386'' \<longrightarrow> releaseArch goarch = None)
   \<and> (length (Args ctx) = 1
        \<and> latestReleaseData env (Get (Args ctx) 0) = (evs, Inr data)
        \<and> map_of data ''tag_name'' = Some (JString tag_name)
      \<longrightarrow> (\<exists>tag. majorTag tag_name = Some tag
            \<and> (GOARCH env = ''amd64'' \<longrightarrow>
                 downloadxPlugin env ctx =
                   (evs @ fst (download env
                                 (downloadLink (Get (Args ctx) 0) tag (GOOS env) ''x86_64'')
                                 (Get (Args ctx) 0)),
                    ReturnsNil))
            \<and> (GOARCH env = ''386'' \<longrightarrow>
                 downloadxPlugin env ctx =
                   (evs @ fst (download env
                                 (downloadLink (Get (Args ctx) 0) tag (GOOS env) ''x86_32'')
                                 (Get (Args ctx) 0)),
                    ReturnsNil))
            \<and> (GOARCH env \<noteq> ''amd64'' \<and> GOARCH env \<noteq> ''386'' \<longrightarrow>
                 downloadxPlugin env ctx =
                   (evs, Returns (Errorf ''This arch is not yet supported'')))))
   \<and> (GOARCH env \<noteq> ''amd64'' \<and> GOARCH env \<noteq> ''386'' \<longrightarrow>
        fst (downloadxPlugin env ctx) =
          (if length (Args ctx) = 1 then fst (latestReleaseData env (Get (Args ctx) 0)) else []))"
proof -
  have m: "releaseArch ''amd64'' = Some ''x86_64''" "releaseArch ''386'' = Some ''x86_32''"
    by (simp_all add: releaseArch_def)
  have o: "goarch \<noteq> ''amd64'' \<and> goarch \<noteq> ''386'' \<longrightarrow> releaseArch goarch = None"
    by (simp add: releaseArch_None)
  have r: "\<exists>tag. majorTag tag_name = Some tag
            \<and> (GOARCH env = ''amd64'' \<longrightarrow>
                 downloadxPlugin env ctx =
                   (evs @ fst (download env
                                 (downloadLink (Get (Args ctx) 0) tag (GOOS env) ''x86_64'')
                                 (Get (Args ctx) 0)),
                    ReturnsNil))
            \<and> (GOARCH env = ''386'' \<longrightarrow>
                 downloadxPlugin env ctx =
                   (evs @ fst (download env
                                 (downloadLink (Get (Args ctx) 0) tag (GOOS env) ''x86_32'')
                                 (Get (Args ctx) 0)),
                    ReturnsNil))
            \<and> (GOARCH env \<noteq> ''amd64'' \<and> GOARCH env \<noteq> ''386'' \<longrightarrow>
                 downloadxPlugin env ctx =
                   (evs, Returns (Errorf ''This arch is not yet supported'')))"
    if a: "length (Args ctx) = 1" "latestReleaseData env (Get (Args ctx) 0) = (evs, Inr data)"
      "map_of data ''tag_name'' = Some (JString tag_name)"
  proof -
    let ?tag = "takeWhile (\<lambda>c. c \<noteq> CHR ''.'') tag_name"
    have t: "majorTag tag_name = Some ?tag" by (rule majorTag_takeWhile)
    have 1: "downloadxPlugin env ctx =
        (evs @ fst (download env (downloadLink (Get (Args ctx) 0) ?tag (GOOS env) ''x86_64'')
                      (Get (Args ctx) 0)), ReturnsNil)" if "GOARCH env = ''amd64''"
      using downloadx_supported [OF a t, of "''x86_64''"] that m by simp
    have 2: "downloadxPlugin env ctx =
        (evs @ fst (download env (downloadLink (Get (Args ctx) 0) ?tag (GOOS env) ''x86_32'')
                      (Get (Args ctx) 0)), ReturnsNil)" if "GOARCH env = ''386''"
      using downloadx_supported [OF a t, of "''x86_32''"] that m by simp
    have 3: "downloadxPlugin env ctx = (evs, Returns (Errorf ''This arch is not yet supported''))"
      if "GOARCH env \<noteq> ''amd64'' \<and> GOARCH env \<noteq> ''386''"
      using downloadx_unsupported [OF a] that by (simp add: releaseArch_None)
    from t 1 2 3 show ?thesis by blast
  qed
  have e: "fst (downloadxPlugin env ctx) =
          (if length (Args ctx) = 1 then fst (latestReleaseData env (Get (Args ctx) 0)) else [])"
    if "GOARCH env \<noteq> ''amd64'' \<and> GOARCH env \<noteq> ''386''"
    using downloadx_unsupported_events [of env ctx] that by (simp add: releaseArch_None)
  from m o r e show ?thesis by blast
qed

text \<open>
  The theorem for the release tagged \<open>2.4.1-beta\<close>, on \<open>arm\<close>, on \<open>amd64\<close> and on \<open>386\<close>.
\<close>

theorem release_arch_mapping_witness:
  "downloadxPlugin (releaseEnv ''arm'' [(''tag_name'', JString ''2.4.1-beta'')])
     \<lparr>Args = [''snap-plugin-publisher-file''], plugin_asc = [],
      plugin_type = [], plugin_name = [], plugin_version = 0\<rparr>
   = ([HttpGet ''https://api.github.com/repos/intelsdi-x/snap-plugin-publisher-file/releases/latest''],
      Returns (Errorf ''This arch is not yet supported''))
   \<and> downloadxPlugin (releaseEnv ''amd64'' [(''tag_name'', JString ''2.4.1-beta'')])
     \<lparr>Args = [''snap-plugin-publisher-file''], plugin_asc = [],
      plugin_type = [], plugin_name = [], plugin_version = 0\<rparr>
   = ([HttpGet ''https://api.github.com/repos/intelsdi-x/snap-plugin-publisher-file/releases/latest'',
       Stdout ''Downloading https://github.com/intelsdi-x/snap-plugin-publisher-file/releases/download/2/snap-plugin-publisher-file_linux_x86_64 to snap-plugin-publisher-file\<newline>'',
       FileCreate ''snap-plugin-publisher-file'',
       HttpGet ''https://github.com/intelsdi-x/snap-plugin-publisher-file/releases/download/2/snap-plugin-publisher-file_linux_x86_64'',
       FileWrite ''snap-plugin-publisher-file'' ''{}'',
       Stdout ''2 bytes downloaded.\<newline>''],
      ReturnsNil)
   \<and> downloadxPlugin (releaseEnv ''386'' [(''tag_name'', JString ''2.4.1-beta'')])
     \<lparr>Args = [''snap-plugin-publisher-file''], plugin_asc = [],
      plugin_type = [], plugin_name = [], plugin_version = 0\<rparr>
   = ([HttpGet ''https://api.github.com/repos/intelsdi-x/snap-plugin-publisher-file/releases/latest'',
       Stdout ''Downloading https://github.com/intelsdi-x/snap-plugin-publisher-file/releases/download/2/snap-plugin-publisher-file_linux_x86_32 to snap-plugin-publisher-file\<newline>'',
       FileCreate ''snap-plugin-publisher-file'',
       HttpGet ''https://github.com/intelsdi-x/snap-plugin-publisher-file/releases/download/2/snap-plugin-publisher-file_linux_x86_32'',
       FileWrite ''snap-plugin-publisher-file'' ''{}'',
       Stdout ''2 bytes downloaded.\<newline>''],
      ReturnsNil)"
proof -
  let ?ctx = "\<lparr>Args = [''snap-plugin-publisher-file''], plugin_asc = [],
      plugin_type = [], plugin_name = [], plugin_version = 0\<rparr>"
  let ?d = "[(''tag_name'', JString ''2.4.1-beta'')]"
  let ?api = "''https://api.github.com/repos/intelsdi-x/snap-plugin-publisher-file/releases/latest''"
  have n: "length (Args ?ctx) = 1" by simp
  have g: "Get (Args ?ctx) 0 = ''snap-plugin-publisher-file''" by (simp add: Get_def)
  have l: "latestReleaseData (releaseEnv a ?d) (Get (Args ?ctx) 0) = ([HttpGet ?api], Inr ?d)" for a
    by (simp add: Get_def releaseEnv_latest)
  have t: "map_of ?d ''tag_name'' = Some (JString ''2.4.1-beta'')" by simp
  have arm: "GOARCH (releaseEnv ''arm'' ?d) \<noteq> ''amd64'' \<and> GOARCH (releaseEnv ''arm'' ?d) \<noteq> ''386''"
    by (simp add: releaseEnv_GOARCH)
  from release_arch_mapping [of _ ?ctx "releaseEnv ''arm'' ?d" "[HttpGet ?api]" ?d "''2.4.1-beta''"]
    n l [of "''arm''"] t arm
  have 1: "downloadxPlugin (releaseEnv ''arm'' ?d) ?ctx =
      ([HttpGet ?api], Returns (Errorf ''This arch is not yet supported''))"
    by blast
  from release_arch_mapping [of _ ?ctx "releaseEnv ''amd64'' ?d" "[HttpGet ?api]" ?d "''2.4.1-beta''"]
    n l [of "''amd64''"] t releaseEnv_GOARCH [of "''amd64''" ?d] majorTag_example
  have "downloadxPlugin (releaseEnv ''amd64'' ?d) ?ctx =
      ([HttpGet ?api] @ fst (download (releaseEnv ''amd64'' ?d)
         (downloadLink (Get (Args ?ctx) 0) ''2'' (GOOS (releaseEnv ''amd64'' ?d)) ''x86_64'')
         (Get (Args ?ctx) 0)), ReturnsNil)"
    by auto
  then have 2: "downloadxPlugin (releaseEnv ''amd64'' ?d) ?ctx =
      ([HttpGet ?api,
       Stdout ''Downloading https://github.com/intelsdi-x/snap-plugin-publisher-file/releases/download/2/snap-plugin-publisher-file_linux_x86_64 to snap-plugin-publisher-file\<newline>'',
       FileCreate ''snap-plugin-publisher-file'',
       HttpGet ''https://github.com/intelsdi-x/snap-plugin-publisher-file/releases/download/2/snap-plugin-publisher-file_linux_x86_64'',
       FileWrite ''snap-plugin-publisher-file'' ''{}'',
       Stdout ''2 bytes downloaded.\<newline>''], ReturnsNil)"
    by (simp add: Get_def releaseEnv_GOOS releaseEnv_download downloadLink_def)
  from release_arch_mapping [of _ ?ctx "releaseEnv ''386'' ?d" "[HttpGet ?api]" ?d "''2.4.1-beta''"]
    n l [of "''386''"] t releaseEnv_GOARCH [of "''386''" ?d] majorTag_example
  have "downloadxPlugin (releaseEnv ''386'' ?d) ?ctx =
      ([HttpGet ?api] @ fst (download (releaseEnv ''386'' ?d)
         (downloadLink (Get (Args ?ctx) 0) ''2'' (GOOS (releaseEnv ''386'' ?d)) ''x86_32'')
         (Get (Args ?ctx) 0)), ReturnsNil)"
    by auto
  then have 3: "downloadxPlugin (releaseEnv ''386'' ?d) ?ctx =
      ([HttpGet ?api,
       Stdout ''Downloading https://github.com/intelsdi-x/snap-plugin-publisher-file/releases/download/2/snap-plugin-publisher-file_linux_x86_32 to snap-plugin-publisher-file\<newline>'',
       FileCreate ''snap-plugin-publisher-file'',
       HttpGet ''https://github.com/intelsdi-x/snap-plugin-publisher-file/releases/download/2/snap-plugin-publisher-file_linux_x86_32'',
       FileWrite ''snap-plugin-publisher-file'' ''{}'',
       Stdout ''2 bytes downloaded.\<newline>''], ReturnsNil)"
    by (simp add: Get_def releaseEnv_GOOS releaseEnv_download downloadLink_def)
  from 1 2 3 show ?thesis by blast
qed

text \<open>
  Claim C7. For a \<open>tag_name\<close> of the form \<open>major.rest\<close>, with no dot in \<open>major\<close>, the tag
  is \<open>major\<close>, and on a supported architecture the download goes to the link
  \<open>.../releases/download/major/snap-plugin-publisher-file_<os>_<arch>\<close>.
\<close>

theorem major_tag_before_first_dot:
  "CHR ''.'' \<notin> set major \<longrightarrow>
     majorTag (major @ CHR ''.'' # rest) = Some major
   \<and> (length (Args ctx) = 1
        \<and> latestReleaseData env (Get (Args ctx) 0) = (evs, Inr data)
        \<and> map_of data ''tag_name'' = Some (JString (major @ CHR ''.'' # rest))
        \<and> releaseArch (GOARCH env) = Some arch
      \<longrightarrow> downloadxPlugin env ctx =
            (evs @ fst (download env
                          (''https://github.com/intelsdi-x/'' @ Get (Args ctx) 0
                             @ ''/releases/download/'' @ major
                             @ ''/snap-plugin-publisher-file_'' @ GOOS env @ ''_'' @ arch)
                          (Get (Args ctx) 0)),
             ReturnsNil))"
proof (intro impI conjI; (elim conjE)?)
  assume d: "CHR ''.'' \<notin> set major"
  then show t: "majorTag (major @ CHR ''.'' # rest) = Some major" by (rule majorTag_prefix)
  assume a: "length (Args ctx) = 1" "latestReleaseData env (Get (Args ctx) 0) = (evs, Inr data)"
    "map_of data ''tag_name'' = Some (JString (major @ CHR ''.'' # rest))"
    "releaseArch (GOARCH env) = Some arch"
  show "downloadxPlugin env ctx =
            (evs @ fst (download env
                          (''https://github.com/intelsdi-x/'' @ Get (Args ctx) 0
                             @ ''/releases/download/'' @ major
                             @ ''/snap-plugin-publisher-file_'' @ GOOS env @ ''_'' @ arch)
                          (Get (Args ctx) 0)),
             ReturnsNil)"
    using downloadx_supported [OF a(1,2,3) t a(4)] by (simp add: downloadLink_def)
qed

text \<open>The theorem at \<open>2.4.1-beta\<close>: the tag is \<open>2\<close>.\<close>

theorem major_tag_before_first_dot_witness:
  "majorTag ''2.4.1-beta'' = Some ''2''
   \<and> fst (downloadxPlugin (releaseEnv ''amd64'' [(''tag_name'', JString ''2.4.1-beta'')])
     \<lparr>Args = [''snap-plugin-publisher-file''], plugin_asc = [],
      plugin_type = [], plugin_name = [], plugin_version = 0\<rparr>)
   = [HttpGet ''https://api.github.com/repos/intelsdi-x/snap-plugin-publisher-file/releases/latest'',
      Stdout ''Downloading https://github.com/intelsdi-x/snap-plugin-publisher-file/releases/download/2/snap-plugin-publisher-file_linux_x86_64 to snap-plugin-publisher-file\<newline>'',
      FileCreate ''snap-plugin-publisher-file'',
      HttpGet ''https://github.com/intelsdi-x/snap-plugin-publisher-file/releases/download/2/snap-plugin-publisher-file_linux_x86_64'',
      FileWrite ''snap-plugin-publisher-file'' ''{}'',
      Stdout ''2 bytes downloaded.\<newline>'']"
proof -
  let ?ctx = "\<lparr>Args = [''snap-plugin-publisher-file''], plugin_asc = [],
      plugin_type = [], plugin_name = [], plugin_version = 0\<rparr>"
  let ?d = "[(''tag_name'', JString ''2.4.1-beta'')]"
  let ?env = "releaseEnv ''amd64'' ?d"
  let ?api = "''https://api.github.com/repos/intelsdi-x/snap-plugin-publisher-file/releases/latest''"
  have d: "CHR ''.'' \<notin> set ''2''" by simp
  have n: "length (Args ?ctx) = 1" by simp
  have g: "Get (Args ?ctx) 0 = ''snap-plugin-publisher-file''" by (simp add: Get_def)
  have l: "latestReleaseData ?env (Get (Args ?ctx) 0) = ([HttpGet ?api], Inr ?d)"
    by (simp add: Get_def releaseEnv_latest)
  have t: "map_of ?d ''tag_name'' = Some (JString (''2'' @ CHR ''.'' # ''4.1-beta''))" by simp
  have a: "releaseArch (GOARCH ?env) = Some ''x86_64''"
    by (simp add: releaseEnv_GOARCH releaseArch_def)
  note inst = major_tag_before_first_dot
    [of "''2''" "''4.1-beta''" ?ctx ?env "[HttpGet ?api]" ?d "''x86_64''"]
  from inst d have 1: "majorTag (''2'' @ CHR ''.'' # ''4.1-beta'') = Some ''2''" by blast
  from inst d n l t a have "downloadxPlugin ?env ?ctx =
      ([HttpGet ?api] @ fst (download ?env
         (''https://github.com/intelsdi-x/'' @ Get (Args ?ctx) 0 @ ''/releases/download/'' @ ''2''
            @ ''/snap-plugin-publisher-file_'' @ GOOS ?env @ ''_'' @ ''x86_64'')
         (Get (Args ?ctx) 0)), ReturnsNil)"
    by blast
  then have 2: "fst (downloadxPlugin ?env ?ctx) =
     [HttpGet ?api,
      Stdout ''Downloading https://github.com/intelsdi-x/snap-plugin-publisher-file/releases/download/2/snap-plugin-publisher-file_linux_x86_64 to snap-plugin-publisher-file\<newline>'',
      FileCreate ''snap-plugin-publisher-file'',
      HttpGet ''https://github.com/intelsdi-x/snap-plugin-publisher-file/releases/download/2/snap-plugin-publisher-file_linux_x86_64'',
      FileWrite ''snap-plugin-publisher-file'' ''{}'',
      Stdout ''2 bytes downloaded.\<newline>'']"
    by (simp add: Get_def releaseEnv_GOOS releaseEnv_download)
  from 1 2 show ?thesis by simp
qed

end
